theory Spec2Isabelle
  imports Main "HOL-Library.AList"
begin

section \<open>Auth Agent: an OAuth 2.1 authorization server for agents\<close>

text \<open>
  A shallow embedding of the in-memory authorization server: the store
  (\<open>db/store.ts\<close>), the authorization endpoint (\<open>oauth/authorize.ts\<close>), the agent back
  channel (\<open>agentAuthenticateHandler\<close>), the status poll
  (\<open>oauth/checkStatus.ts\<close>), the token endpoint (\<open>oauth/token.ts\<close>), introspection
  and revocation (\<open>oauth/introspect.ts\<close>, \<open>oauth/revoke.ts\<close>) and the helpers of
  \<open>lib/crypto.ts\<close>, \<open>lib/jwt.ts\<close> and \<open>lib/constants.ts\<close>.

  Conventions.
  \<^item> \<open>Date.now()\<close> is an argument \<open>now\<close> (milliseconds, an \<open>int\<close>); two reads of the
    clock with an \<open>await\<close> between them are two arguments.
  \<^item> A handler is one step of the server up to an \<open>await\<close> that lets other requests in:
    the agent back channel, which tests the request, awaits \<open>bcrypt.compare\<close> and then
    writes, is two steps. The other handlers touch the requests, codes and tokens only
    after their last such \<open>await\<close>.
  \<^item> The output of \<open>crypto.randomBytes\<close> is an argument of the handler that draws it.
  \<^item> A JavaScript \<open>Map\<close> is an association list in insertion order: \<open>get\<close> is
    \<open>map_of\<close>, \<open>set\<close> is \<open>AList.update\<close> (in place for a known key, at the end for
    a new one), \<open>delete\<close> is \<open>AList.delete\<close>.
  \<^item> A field of a JSON body or of a query string is a \<open>string option\<close>; JavaScript's
    \<open>!x\<close> holds for a missing field and for the empty string.
  \<^item> \<open>bcryptjs\<close>, the digest of Node's \<open>crypto\<close> and the URL parser are not part of
    the repository: they are the fields of a record \<open>libs\<close> that every function
    calling them takes as its first argument. A token signed by \<open>jsonwebtoken\<close> is a
    symbolic value \<open>Jwt key claims\<close>.
\<close>

subsection \<open>Data model (\<open>db/types.ts\<close>)\<close>

record jwt_payload =
  sub :: string
  jp_client_id :: string
  jp_model :: string
  jp_scope :: string
  iat :: int
  exp :: int
  iss :: string

text \<open>
  A string presented as a token is either the compact serialization of a JWT, modelled by
  the key that signed it and its claims, or any other string.
\<close>

datatype token_string = Jwt string jwt_payload | Opaque string

record agent =
  ag_agent_id :: string
  agent_secret_hash :: string
  user_email :: string
  user_name :: string
  ag_created_at :: int

record client =
  cl_client_id :: string
  client_secret_hash :: string
  client_name :: string
  allowed_redirect_uris :: "string list"
  allowed_grant_types :: "string list"
  cl_created_at :: int

datatype request_status = Pending | Authenticated | Completed | Expired | Error

record auth_request =
  request_id :: string
  ar_client_id :: string
  redirect_uri :: string
  state :: string
  code_challenge :: string
  code_challenge_method :: string
  ar_scope :: string
  code :: "string option"
  ar_agent_id :: "string option"
  ar_model :: "string option"
  status :: request_status
  error :: "string option"
  ar_created_at :: int
  ar_expires_at :: int

record token =
  token_id :: string
  access_token :: token_string
  refresh_token :: "token_string option"
  tk_agent_id :: string
  tk_client_id :: string
  tk_model :: string
  tk_scope :: string
  access_token_expires_at :: int
  refresh_token_expires_at :: "int option"
  tk_created_at :: int
  tk_revoked :: bool

record refresh_token_entry =
  rt_refresh_token :: token_string
  rt_token_id :: string
  rt_agent_id :: string
  rt_client_id :: string
  rt_expires_at :: int
  rt_revoked :: bool

subsection \<open>Configuration (\<open>lib/constants.ts\<close>)\<close>

definition ACCESS_TOKEN_EXPIRES_IN :: int where
  "ACCESS_TOKEN_EXPIRES_IN = 60 * 60"

definition REFRESH_TOKEN_EXPIRES_IN :: int where
  "REFRESH_TOKEN_EXPIRES_IN = 30 * 24 * 60 * 60"

definition AUTH_REQUEST_EXPIRES_IN :: int where
  "AUTH_REQUEST_EXPIRES_IN = 10 * 60"

definition JWT_SECRET :: string where
  "JWT_SECRET = ''your-secret-key-change-in-production''"

definition JWT_ISSUER :: string where
  "JWT_ISSUER = ''auth-agent.com''"

definition DEFAULT_SCOPE :: string where
  "DEFAULT_SCOPE = ''openid profile''"

subsection \<open>The in-memory store (\<open>db/store.ts\<close>)\<close>

record store =
  agents :: "(string \<times> agent) list"
  clients :: "(string \<times> client) list"
  authRequests :: "(string \<times> auth_request) list"
  tokens :: "(string \<times> token) list"
  refreshTokens :: "(token_string \<times> refresh_token_entry) list"
  authorizationCodes :: "(string \<times> string) list"

definition getAgent :: "store \<Rightarrow> string \<Rightarrow> agent option" where
  "getAgent s agent_id = map_of (agents s) agent_id"

definition getClient :: "store \<Rightarrow> string \<Rightarrow> client option" where
  "getClient s client_id = map_of (clients s) client_id"

definition createAuthRequest :: "auth_request \<Rightarrow> store \<Rightarrow> store" where
  "createAuthRequest r s = s\<lparr>authRequests := AList.update (request_id r) r (authRequests s)\<rparr>"

definition getAuthRequest :: "store \<Rightarrow> string \<Rightarrow> auth_request option" where
  "getAuthRequest s rid = map_of (authRequests s) rid"

text \<open>
  \<open>updateAuthRequest\<close> writes \<open>{...request, ...updates}\<close> back; the partial record
  \<open>updates\<close> is the function that overwrites its fields.
\<close>

definition updateAuthRequest ::
  "string \<Rightarrow> (auth_request \<Rightarrow> auth_request) \<Rightarrow> store \<Rightarrow> store" where
  "updateAuthRequest rid updates s =
     (case map_of (authRequests s) rid of
        None \<Rightarrow> s
      | Some request \<Rightarrow> s\<lparr>authRequests := AList.update rid (updates request) (authRequests s)\<rparr>)"

definition deleteAuthRequest :: "string \<Rightarrow> store \<Rightarrow> store" where
  "deleteAuthRequest rid s = s\<lparr>authRequests := AList.delete rid (authRequests s)\<rparr>"

definition storeAuthCode :: "string \<Rightarrow> string \<Rightarrow> store \<Rightarrow> store" where
  "storeAuthCode c rid s = s\<lparr>authorizationCodes := AList.update c rid (authorizationCodes s)\<rparr>"

text \<open>\<open>this.authorizationCodes.get(code) || null\<close>: an empty request id reads as null.\<close>

definition getAuthCodeRequestId :: "store \<Rightarrow> string \<Rightarrow> string option" where
  "getAuthCodeRequestId s c =
     (case map_of (authorizationCodes s) c of
        None \<Rightarrow> None
      | Some rid \<Rightarrow> if rid = [] then None else Some rid)"

definition deleteAuthCode :: "string \<Rightarrow> store \<Rightarrow> store" where
  "deleteAuthCode c s = s\<lparr>authorizationCodes := AList.delete c (authorizationCodes s)\<rparr>"

definition createToken :: "token \<Rightarrow> store \<Rightarrow> store" where
  "createToken t s = s\<lparr>tokens := AList.update (token_id t) t (tokens s)\<rparr>"

definition getToken :: "store \<Rightarrow> string \<Rightarrow> token option" where
  "getToken s tid = map_of (tokens s) tid"

text \<open>The linear scan over \<open>this.tokens.values()\<close>, in insertion order.\<close>

fun findByAccessToken :: "(string \<times> token) list \<Rightarrow> token_string \<Rightarrow> (string \<times> token) option" where
  "findByAccessToken [] a = None"
| "findByAccessToken ((k, t) # ts) a =
     (if access_token t = a then Some (k, t) else findByAccessToken ts a)"

definition getTokenByAccessToken :: "store \<Rightarrow> token_string \<Rightarrow> token option" where
  "getTokenByAccessToken s a = map_option snd (findByAccessToken (tokens s) a)"

definition revokeToken :: "string \<Rightarrow> store \<Rightarrow> store" where
  "revokeToken tid s =
     (case map_of (tokens s) tid of
        None \<Rightarrow> s
      | Some t \<Rightarrow> s\<lparr>tokens := AList.update tid (t\<lparr>tk_revoked := True\<rparr>) (tokens s)\<rparr>)"

text \<open>
  \<open>revokeTokenByAccessToken\<close> sets \<open>revoked\<close> on the object the scan found (under the
  key \<open>k\<close> it is stored at) and then stores that object under its own \<open>token_id\<close>.
\<close>

definition revokeTokenByAccessToken :: "token_string \<Rightarrow> store \<Rightarrow> store" where
  "revokeTokenByAccessToken a s =
     (case findByAccessToken (tokens s) a of
        None \<Rightarrow> s
      | Some (k, t) \<Rightarrow>
          s\<lparr>tokens := AList.update (token_id t) (t\<lparr>tk_revoked := True\<rparr>)
                        (AList.update k (t\<lparr>tk_revoked := True\<rparr>) (tokens s))\<rparr>)"

text \<open>
  \<open>db.revokeRefreshToken\<close> of the store carries the prefix \<open>db_\<close> here: the revocation
  endpoint has a function of the same name.
\<close>

definition createRefreshToken :: "refresh_token_entry \<Rightarrow> store \<Rightarrow> store" where
  "createRefreshToken e s =
     s\<lparr>refreshTokens := AList.update (rt_refresh_token e) e (refreshTokens s)\<rparr>"

definition getRefreshToken :: "store \<Rightarrow> token_string \<Rightarrow> refresh_token_entry option" where
  "getRefreshToken s rt = map_of (refreshTokens s) rt"

definition db_revokeRefreshToken :: "token_string \<Rightarrow> store \<Rightarrow> store" where
  "db_revokeRefreshToken rt s =
     (case map_of (refreshTokens s) rt of
        None \<Rightarrow> s
      | Some e \<Rightarrow> s\<lparr>refreshTokens := AList.update rt (e\<lparr>rt_revoked := True\<rparr>) (refreshTokens s)\<rparr>)"

text \<open>The sweeper, run every five minutes.\<close>

definition cleanupExpired :: "int \<Rightarrow> store \<Rightarrow> store" where
  "cleanupExpired now s =
     s\<lparr>authRequests := filter (\<lambda>(rid, request). \<not> ar_expires_at request < now) (authRequests s),
       refreshTokens := filter (\<lambda>(rt, entry). \<not> rt_expires_at entry < now) (refreshTokens s)\<rparr>"

subsection \<open>Library functions and \<open>lib/crypto.ts\<close>\<close>

text \<open>
  \<open>bcrypt_compare\<close> is \<open>bcrypt.compare\<close>; \<open>sha256_base64url v\<close> is
  \<open>crypto.createHash('sha256').update(v).digest('base64url')\<close>; \<open>url_parses u\<close> holds
  when \<open>new URL(u)\<close> does not throw.
\<close>

record libs =
  bcrypt_compare :: "string \<Rightarrow> string \<Rightarrow> bool"
  sha256_base64url :: "string \<Rightarrow> string"
  url_parses :: "string \<Rightarrow> bool"

definition verifySecret :: "libs \<Rightarrow> string \<Rightarrow> string \<Rightarrow> bool" where
  "verifySecret L secret hash = bcrypt_compare L secret hash"

definition validatePKCE :: "libs \<Rightarrow> string \<Rightarrow> string \<Rightarrow> string \<Rightarrow> bool" where
  "validatePKCE L codeVerifier codeChallenge method =
     (if method \<noteq> ''S256'' then False
      else let hash = sha256_base64url L codeVerifier in hash = codeChallenge)"

text \<open>The argument \<open>rnd\<close> of a generator is the value of \<open>generateSecureRandom\<close>.\<close>

definition generateAuthCode :: "string \<Rightarrow> string" where
  "generateAuthCode rnd = ''code_'' @ rnd"

definition generateRefreshToken :: "string \<Rightarrow> token_string" where
  "generateRefreshToken rnd = Opaque (''rt_'' @ rnd)"

definition generateTokenId :: "string \<Rightarrow> string" where
  "generateTokenId rnd = ''tok_'' @ rnd"

definition generateRequestId :: "string \<Rightarrow> string" where
  "generateRequestId rnd = ''req_'' @ rnd"

subsection \<open>JWT access tokens (\<open>lib/jwt.ts\<close>)\<close>

definition generateAccessToken ::
  "int \<Rightarrow> string \<Rightarrow> string \<Rightarrow> string \<Rightarrow> string \<Rightarrow> token_string" where
  "generateAccessToken now agentId clientId model scope =
     (let now_s = now div 1000 in
      Jwt JWT_SECRET
        \<lparr>sub = agentId, jp_client_id = clientId, jp_model = model, jp_scope = scope,
         iat = now_s, exp = now_s + ACCESS_TOKEN_EXPIRES_IN, iss = JWT_ISSUER\<rparr>)"

text \<open>
  \<open>jwt.verify\<close> with \<open>algorithms: ['HS256']\<close> and \<open>issuer\<close>: the signature must be by
  the configured key, the issuer must match, and the token is expired as soon as the
  clock (in seconds) reaches \<open>exp\<close>; any failure is \<open>null\<close>.
\<close>

definition verifyAccessToken :: "int \<Rightarrow> token_string \<Rightarrow> jwt_payload option" where
  "verifyAccessToken now t =
     (case t of
        Jwt key payload \<Rightarrow>
          if key = JWT_SECRET \<and> iss payload = JWT_ISSUER \<and> now div 1000 < exp payload
          then Some payload else None
      | Opaque _ \<Rightarrow> None)"

subsection \<open>Requests and responses\<close>

text \<open>An error response: HTTP status, \<open>error\<close>, \<open>error_description\<close>.\<close>

datatype http_error = HttpError nat string string

definition server_error :: http_error where
  "server_error = HttpError 500 ''server_error'' ''Internal server error''"

text \<open>JavaScript's \<open>!x\<close> on an optional string.\<close>

definition missing :: "string option \<Rightarrow> bool" where
  "missing x = (case x of None \<Rightarrow> True | Some v \<Rightarrow> v = [])"

definition missing_token :: "token_string option \<Rightarrow> bool" where
  "missing_token x = (case x of None \<Rightarrow> True | Some v \<Rightarrow> v = Opaque [])"

definition status_name :: "request_status \<Rightarrow> string" where
  "status_name st =
     (case st of Pending \<Rightarrow> ''pending'' | Authenticated \<Rightarrow> ''authenticated''
      | Completed \<Rightarrow> ''completed'' | Expired \<Rightarrow> ''expired'' | Error \<Rightarrow> ''error'')"

subsection \<open>Validation (\<open>lib/validation.ts\<close>)\<close>

definition isValidUrl :: "libs \<Rightarrow> string \<Rightarrow> bool" where
  "isValidUrl L url = url_parses L url"

definition isAllowedRedirectUri :: "string \<Rightarrow> string list \<Rightarrow> bool" where
  "isAllowedRedirectUri uri allowedUris = (uri \<in> set allowedUris)"

definition isValidCodeChallengeMethod :: "string \<Rightarrow> bool" where
  "isValidCodeChallengeMethod method = (method = ''S256'')"

text \<open>The character class \<open>[a-zA-Z0-9_-]\<close>.\<close>

definition id_char :: "char \<Rightarrow> bool" where
  "id_char c =
     (let n = (of_char c :: nat)
      in (97 \<le> n \<and> n \<le> 122) \<or> (65 \<le> n \<and> n \<le> 90) \<or> (48 \<le> n \<and> n \<le> 57)
         \<or> c = CHR ''_'' \<or> c = CHR ''-'')"

text \<open>\<open>/^[a-zA-Z0-9_-]+$/.test(clientId) && clientId.length >= 3\<close>.\<close>

definition isValidClientId :: "string \<Rightarrow> bool" where
  "isValidClientId clientId =
     ((clientId \<noteq> [] \<and> list_all id_char clientId) \<and> 3 \<le> length clientId)"

subsection \<open>Authorization endpoint: \<open>GET /authorize\<close> (\<open>oauth/authorize.ts\<close>)\<close>

record authorize_query =
  aq_client_id :: "string option"
  aq_redirect_uri :: "string option"
  aq_state :: "string option"
  aq_code_challenge :: "string option"
  aq_code_challenge_method :: "string option"
  aq_scope :: "string option"
  response_type :: "string option"

text \<open>
  The two HTML pages: \<open>errorPage(error, description)\<close> and
  \<open>spinningPage(requestId, clientName)\<close>.
\<close>

datatype authorize_page = ErrorPage string string | SpinningPage string string

definition authorizeHandler ::
  "libs \<Rightarrow> int \<Rightarrow> string \<Rightarrow> authorize_query \<Rightarrow> store \<Rightarrow> authorize_page \<times> store" where
  "authorizeHandler L now rnd q s =
     (if missing (aq_client_id q)
      then (ErrorPage ''invalid_request'' ''Missing client_id parameter'', s)
      else if missing (aq_redirect_uri q)
      then (ErrorPage ''invalid_request'' ''Missing redirect_uri parameter'', s)
      else if missing (aq_state q)
      then (ErrorPage ''invalid_request'' ''Missing state parameter'', s)
      else if missing (aq_code_challenge q)
      then (ErrorPage ''invalid_request'' ''Missing code_challenge parameter (PKCE required)'', s)
      else if missing (aq_code_challenge_method q)
      then (ErrorPage ''invalid_request'' ''Missing code_challenge_method parameter'', s)
      else if response_type q \<noteq> Some ''code''
      then (ErrorPage ''unsupported_response_type''
              ''Only \"code\" response type is supported'', s)
      else
        let client_id = the (aq_client_id q); uri = the (aq_redirect_uri q);
            method = the (aq_code_challenge_method q)
        in if \<not> isValidClientId client_id
           then (ErrorPage ''invalid_request'' ''Invalid client_id format'', s)
           else if \<not> isValidUrl L uri
           then (ErrorPage ''invalid_request'' ''Invalid redirect_uri format'', s)
           else if \<not> isValidCodeChallengeMethod method
           then (ErrorPage ''invalid_request''
                   ''Invalid code_challenge_method. Only S256 is supported'', s)
           else
             (case getClient s client_id of
                None \<Rightarrow> (ErrorPage ''invalid_client'' ''Client not found'', s)
              | Some client \<Rightarrow>
                  if \<not> isAllowedRedirectUri uri (allowed_redirect_uris client)
                  then (ErrorPage ''invalid_request''
                          ''redirect_uri is not registered for this client'', s)
                  else
                    let finalScope = (if missing (aq_scope q) then DEFAULT_SCOPE
                                      else the (aq_scope q));
                        requestId = generateRequestId rnd
                    in (SpinningPage requestId (client_name client),
                        createAuthRequest
                          \<lparr>request_id = requestId, ar_client_id = client_id,
                           redirect_uri = uri, state = the (aq_state q),
                           code_challenge = the (aq_code_challenge q),
                           code_challenge_method = method, ar_scope = finalScope,
                           code = None, ar_agent_id = None, ar_model = None,
                           status = Pending, error = None, ar_created_at = now,
                           ar_expires_at = now + AUTH_REQUEST_EXPIRES_IN * 1000\<rparr> s)))"

subsection \<open>Agent back channel: \<open>POST /api/agent/authenticate\<close>\<close>

record authenticate_body =
  ab_request_id :: "string option"
  ab_agent_id :: "string option"
  ab_agent_secret :: "string option"
  ab_model :: "string option"

text \<open>
  The body is \<open>None\<close> when \<open>c.req.json()\<close> throws; the handler's \<open>catch\<close> answers 500.
  The reply \<open>Inr ()\<close> is \<open>{success: true}\<close>.

  \<open>agentAuthenticateHandler\<close> is the handler run from its first line to its last on one
  store, that is, when no other request is served while it awaits \<open>verifySecret\<close>.
\<close>

definition agentAuthenticateHandler ::
  "libs \<Rightarrow> int \<Rightarrow> string \<Rightarrow> authenticate_body option \<Rightarrow> store
     \<Rightarrow> (http_error + unit) \<times> store" where
  "agentAuthenticateHandler L now rnd body s =
     (case body of
        None \<Rightarrow> (Inl server_error, s)
      | Some b \<Rightarrow>
          if missing (ab_request_id b) \<or> missing (ab_agent_id b)
             \<or> missing (ab_agent_secret b) \<or> missing (ab_model b)
          then (Inl (HttpError 400 ''invalid_request''
                  ''Missing required fields: request_id, agent_id, agent_secret, model''), s)
          else
            let rid = the (ab_request_id b); agent_id = the (ab_agent_id b);
                agent_secret = the (ab_agent_secret b); model = the (ab_model b)
            in (case getAuthRequest s rid of
                  None \<Rightarrow>
                    (Inl (HttpError 404 ''invalid_request'' ''Auth request not found or expired''), s)
                | Some authRequest \<Rightarrow>
                    if ar_expires_at authRequest < now then
                      (Inl (HttpError 400 ''request_expired'' ''Auth request has expired''),
                       updateAuthRequest rid
                         (\<lambda>r. r\<lparr>status := Expired, error := Some ''Auth request expired''\<rparr>) s)
                    else if status authRequest \<noteq> Pending then
                      (Inl (HttpError 400 ''invalid_request''
                              (''Auth request is already '' @ status_name (status authRequest))), s)
                    else
                      (case getAgent s agent_id of
                         None \<Rightarrow>
                           (Inl (HttpError 401 ''invalid_client'' ''Agent not found''),
                            updateAuthRequest rid
                              (\<lambda>r. r\<lparr>status := Error, error := Some ''Invalid agent credentials''\<rparr>) s)
                       | Some agent \<Rightarrow>
                           if \<not> verifySecret L agent_secret (agent_secret_hash agent) then
                             (Inl (HttpError 401 ''invalid_client'' ''Invalid agent credentials''),
                              updateAuthRequest rid
                                (\<lambda>r. r\<lparr>status := Error, error := Some ''Invalid agent credentials''\<rparr>) s)
                           else
                             let authCode = generateAuthCode rnd
                             in (Inr (),
                                 storeAuthCode authCode rid
                                   (updateAuthRequest rid
                                      (\<lambda>r. r\<lparr>ar_agent_id := Some agent_id, ar_model := Some model,
                                              code := Some authCode, status := Authenticated\<rparr>) s)))))"

text \<open>
  The handler around \<open>await verifySecret\<close>. Up to the \<open>await\<close> it reads the request and
  tests its expiry and its status; it either answers at once (\<open>Inl\<close>, with the store it
  leaves), or it is suspended (\<open>Inr\<close>) holding the request id, the agent id and the model
  it has read, and the answer that \<open>bcrypt.compare\<close> will give. After the \<open>await\<close> it
  writes on the store of that later moment, without reading the request again.
\<close>

record suspended_authenticate =
  sa_request_id :: string
  sa_agent_id :: string
  sa_model :: string
  isValidSecret :: bool

definition agentAuthenticate_before_await ::
  "libs \<Rightarrow> int \<Rightarrow> authenticate_body option \<Rightarrow> store
     \<Rightarrow> ((http_error + unit) \<times> store) + suspended_authenticate" where
  "agentAuthenticate_before_await L now body s =
     (case body of
        None \<Rightarrow> Inl (Inl server_error, s)
      | Some b \<Rightarrow>
          if missing (ab_request_id b) \<or> missing (ab_agent_id b)
             \<or> missing (ab_agent_secret b) \<or> missing (ab_model b)
          then Inl (Inl (HttpError 400 ''invalid_request''
                  ''Missing required fields: request_id, agent_id, agent_secret, model''), s)
          else
            let rid = the (ab_request_id b); agent_id = the (ab_agent_id b);
                agent_secret = the (ab_agent_secret b); model = the (ab_model b)
            in (case getAuthRequest s rid of
                  None \<Rightarrow>
                    Inl (Inl (HttpError 404 ''invalid_request''
                                ''Auth request not found or expired''), s)
                | Some authRequest \<Rightarrow>
                    if ar_expires_at authRequest < now then
                      Inl (Inl (HttpError 400 ''request_expired'' ''Auth request has expired''),
                           updateAuthRequest rid
                             (\<lambda>r. r\<lparr>status := Expired,
                                    error := Some ''Auth request expired''\<rparr>) s)
                    else if status authRequest \<noteq> Pending then
                      Inl (Inl (HttpError 400 ''invalid_request''
                                  (''Auth request is already ''
                                     @ status_name (status authRequest))), s)
                    else
                      (case getAgent s agent_id of
                         None \<Rightarrow>
                           Inl (Inl (HttpError 401 ''invalid_client'' ''Agent not found''),
                                updateAuthRequest rid
                                  (\<lambda>r. r\<lparr>status := Error,
                                         error := Some ''Invalid agent credentials''\<rparr>) s)
                       | Some agent \<Rightarrow>
                           Inr \<lparr>sa_request_id = rid, sa_agent_id = agent_id, sa_model = model,
                                isValidSecret =
                                  verifySecret L agent_secret (agent_secret_hash agent)\<rparr>)))"

definition agentAuthenticate_after_await ::
  "string \<Rightarrow> suspended_authenticate \<Rightarrow> store \<Rightarrow> (http_error + unit) \<times> store" where
  "agentAuthenticate_after_await rnd call s =
     (if \<not> isValidSecret call then
        (Inl (HttpError 401 ''invalid_client'' ''Invalid agent credentials''),
         updateAuthRequest (sa_request_id call)
           (\<lambda>r. r\<lparr>status := Error, error := Some ''Invalid agent credentials''\<rparr>) s)
      else
        let authCode = generateAuthCode rnd
        in (Inr (),
            storeAuthCode authCode (sa_request_id call)
              (updateAuthRequest (sa_request_id call)
                 (\<lambda>r. r\<lparr>ar_agent_id := Some (sa_agent_id call),
                        ar_model := Some (sa_model call),
                        code := Some authCode, status := Authenticated\<rparr>) s)))"

subsection \<open>Status poll: \<open>GET /api/check-status\<close>\<close>

text \<open>The three documents the poll answers with HTTP 200.\<close>

datatype status_document =
    StatusPending
  | StatusError string
  | StatusAuthenticated string string string

definition checkStatusHandler ::
  "int \<Rightarrow> string option \<Rightarrow> store \<Rightarrow> (http_error + status_document) \<times> store" where
  "checkStatusHandler now request_id_param s =
     (if missing request_id_param then
        (Inl (HttpError 400 ''invalid_request'' ''Missing request_id parameter''), s)
      else
        let rid = the request_id_param
        in (case getAuthRequest s rid of
              None \<Rightarrow> (Inl (HttpError 404 ''not_found'' ''Auth request not found''), s)
            | Some authRequest \<Rightarrow>
                if ar_expires_at authRequest < now \<and> status authRequest = Pending then
                  (Inr (StatusError ''request_expired''),
                   updateAuthRequest rid
                     (\<lambda>r. r\<lparr>status := Expired, error := Some ''Auth request expired''\<rparr>) s)
                else if status authRequest = Authenticated \<and> \<not> missing (code authRequest) then
                  (Inr (StatusAuthenticated (the (code authRequest)) (state authRequest)
                          (redirect_uri authRequest)),
                   updateAuthRequest rid (\<lambda>r. r\<lparr>status := Completed\<rparr>) s)
                else if status authRequest = Error then
                  (Inr (StatusError (if missing (error authRequest) then ''Authentication failed''
                                     else the (error authRequest))), s)
                else (Inr StatusPending, s)))"

subsection \<open>Token endpoint: \<open>POST /token\<close> (\<open>oauth/token.ts\<close>)\<close>

record token_body =
  grant_type :: "string option"
  tb_code :: "string option"
  code_verifier :: "string option"
  tb_client_id :: "string option"
  tb_client_secret :: "string option"
  tb_refresh_token :: "token_string option"

record token_response =
  tr_access_token :: token_string
  token_type :: string
  expires_in :: int
  tr_refresh_token :: token_string
  tr_scope :: string

definition invalid_grant :: "string \<Rightarrow> http_error" where
  "invalid_grant description = HttpError 400 ''invalid_grant'' description"

definition invalid_client :: "string \<Rightarrow> http_error" where
  "invalid_client description = HttpError 401 ''invalid_client'' description"

text \<open>
  \<open>tokenId_rnd\<close> and \<open>refresh_rnd\<close> are the random strings drawn by \<open>generateTokenId\<close>
  and \<open>generateRefreshToken\<close>.
\<close>

definition handleAuthorizationCodeGrant ::
  "libs \<Rightarrow> int \<Rightarrow> string \<Rightarrow> string \<Rightarrow> token_body \<Rightarrow> store
     \<Rightarrow> (http_error + token_response) \<times> store" where
  "handleAuthorizationCodeGrant L now tokenId_rnd refresh_rnd params s =
     (if missing (tb_code params) \<or> missing (code_verifier params)
         \<or> missing (tb_client_id params) \<or> missing (tb_client_secret params)
      then (Inl (HttpError 400 ''invalid_request''
                   ''Missing required parameters for authorization_code grant''), s)
      else
        let c = the (tb_code params); verifier = the (code_verifier params);
            client_id = the (tb_client_id params); client_secret = the (tb_client_secret params)
        in (case getClient s client_id of
              None \<Rightarrow> (Inl (invalid_client ''Client not found''), s)
            | Some client \<Rightarrow>
                if \<not> verifySecret L client_secret (client_secret_hash client)
                then (Inl (invalid_client ''Invalid client credentials''), s)
                else
                  (case getAuthCodeRequestId s c of
                     None \<Rightarrow> (Inl (invalid_grant ''Invalid or expired authorization code''), s)
                   | Some requestId \<Rightarrow>
                       (case getAuthRequest s requestId of
                          None \<Rightarrow> (Inl (invalid_grant ''Invalid authorization code''), s)
                        | Some authRequest \<Rightarrow>
                            if code authRequest \<noteq> Some c
                            then (Inl (invalid_grant ''Invalid authorization code''), s)
                            else if ar_client_id authRequest \<noteq> client_id
                            then (Inl (invalid_grant ''Client ID mismatch''), s)
                            else if \<not> validatePKCE L verifier (code_challenge authRequest)
                                        (code_challenge_method authRequest)
                            then (Inl (invalid_grant ''Invalid PKCE code_verifier''), s)
                            else if ar_expires_at authRequest < now
                            then (Inl (invalid_grant ''Authorization code expired''),
                                  deleteAuthRequest requestId (deleteAuthCode c s))
                            else if missing (ar_agent_id authRequest) \<or> missing (ar_model authRequest)
                            then (Inl (HttpError 500 ''server_error''
                                         ''Missing agent information in auth request''), s)
                            else
                              let agent_id = the (ar_agent_id authRequest);
                                  model = the (ar_model authRequest);
                                  tokenId = generateTokenId tokenId_rnd;
                                  accessToken =
                                    generateAccessToken now agent_id client_id model
                                      (ar_scope authRequest);
                                  refreshTokenValue = generateRefreshToken refresh_rnd;
                                  s1 = createToken
                                         \<lparr>token_id = tokenId, access_token = accessToken,
                                          refresh_token = Some refreshTokenValue,
                                          tk_agent_id = agent_id, tk_client_id = client_id,
                                          tk_model = model, tk_scope = ar_scope authRequest,
                                          access_token_expires_at =
                                            now + ACCESS_TOKEN_EXPIRES_IN * 1000,
                                          refresh_token_expires_at =
                                            Some (now + REFRESH_TOKEN_EXPIRES_IN * 1000),
                                          tk_created_at = now, tk_revoked = False\<rparr> s;
                                  s2 = createRefreshToken
                                         \<lparr>rt_refresh_token = refreshTokenValue,
                                          rt_token_id = tokenId, rt_agent_id = agent_id,
                                          rt_client_id = client_id,
                                          rt_expires_at = now + REFRESH_TOKEN_EXPIRES_IN * 1000,
                                          rt_revoked = False\<rparr> s1;
                                  s3 = deleteAuthRequest requestId (deleteAuthCode c s2)
                              in (Inr \<lparr>tr_access_token = accessToken, token_type = ''Bearer'',
                                       expires_in = ACCESS_TOKEN_EXPIRES_IN,
                                       tr_refresh_token = refreshTokenValue,
                                       tr_scope = ar_scope authRequest\<rparr>, s3)))))"

text \<open>
  The refresh grant reads the clock twice: \<open>checked_at\<close> when it tests the expiry of the
  refresh token, and \<open>now\<close>, after \<open>await db.getToken\<close>, when it creates the token.
\<close>

definition handleRefreshTokenGrant ::
  "libs \<Rightarrow> int \<Rightarrow> int \<Rightarrow> string \<Rightarrow> token_body \<Rightarrow> store
     \<Rightarrow> (http_error + token_response) \<times> store" where
  "handleRefreshTokenGrant L checked_at now tokenId_rnd params s =
     (if missing_token (tb_refresh_token params)
         \<or> missing (tb_client_id params) \<or> missing (tb_client_secret params)
      then (Inl (HttpError 400 ''invalid_request''
                   ''Missing required parameters for refresh_token grant''), s)
      else
        let rt = the (tb_refresh_token params);
            client_id = the (tb_client_id params); client_secret = the (tb_client_secret params)
        in (case getClient s client_id of
              None \<Rightarrow> (Inl (invalid_client ''Client not found''), s)
            | Some client \<Rightarrow>
                if \<not> verifySecret L client_secret (client_secret_hash client)
                then (Inl (invalid_client ''Invalid client credentials''), s)
                else
                  (case getRefreshToken s rt of
                     None \<Rightarrow> (Inl (invalid_grant ''Invalid refresh token''), s)
                   | Some refreshTokenEntry \<Rightarrow>
                       if rt_revoked refreshTokenEntry
                       then (Inl (invalid_grant ''Refresh token has been revoked''), s)
                       else if rt_expires_at refreshTokenEntry < checked_at
                       then (Inl (invalid_grant ''Refresh token expired''), s)
                       else if rt_client_id refreshTokenEntry \<noteq> client_id
                       then (Inl (invalid_grant ''Client ID mismatch''), s)
                       else
                         (case getToken s (rt_token_id refreshTokenEntry) of
                            None \<Rightarrow>
                              (Inl (HttpError 500 ''server_error'' ''Original token not found''), s)
                          | Some originalToken \<Rightarrow>
                              let newTokenId = generateTokenId tokenId_rnd;
                                  newAccessToken =
                                    generateAccessToken now (rt_agent_id refreshTokenEntry)
                                      client_id (tk_model originalToken) (tk_scope originalToken);
                                  s1 = createToken
                                         \<lparr>token_id = newTokenId, access_token = newAccessToken,
                                          refresh_token = Some rt,
                                          tk_agent_id = rt_agent_id refreshTokenEntry,
                                          tk_client_id = client_id,
                                          tk_model = tk_model originalToken,
                                          tk_scope = tk_scope originalToken,
                                          access_token_expires_at =
                                            now + ACCESS_TOKEN_EXPIRES_IN * 1000,
                                          refresh_token_expires_at =
                                            Some (rt_expires_at refreshTokenEntry),
                                          tk_created_at = now, tk_revoked = False\<rparr> s
                              in (Inr \<lparr>tr_access_token = newAccessToken, token_type = ''Bearer'',
                                       expires_in = ACCESS_TOKEN_EXPIRES_IN,
                                       tr_refresh_token = rt,
                                       tr_scope = tk_scope originalToken\<rparr>, s1)))))"

definition tokenHandler ::
  "libs \<Rightarrow> int \<Rightarrow> int \<Rightarrow> string \<Rightarrow> string \<Rightarrow> token_body option \<Rightarrow> store
     \<Rightarrow> (http_error + token_response) \<times> store" where
  "tokenHandler L checked_at now tokenId_rnd refresh_rnd body s =
     (case body of
        None \<Rightarrow> (Inl server_error, s)
      | Some b \<Rightarrow>
          if missing (grant_type b)
          then (Inl (HttpError 400 ''invalid_request'' ''Missing grant_type parameter''), s)
          else if grant_type b = Some ''authorization_code''
          then handleAuthorizationCodeGrant L now tokenId_rnd refresh_rnd b s
          else if grant_type b = Some ''refresh_token''
          then handleRefreshTokenGrant L checked_at now tokenId_rnd b s
          else (Inl (HttpError 400 ''unsupported_grant_type''
                       (''Grant type \"'' @ the (grant_type b) @ ''\" is not supported'')), s))"

subsection \<open>Introspection: \<open>POST /introspect\<close> (\<open>oauth/introspect.ts\<close>)\<close>

text \<open>The body of both \<open>/introspect\<close> and \<open>/revoke\<close>.\<close>

record token_query =
  tq_token :: "token_string option"
  token_type_hint :: "string option"
  tq_client_id :: "string option"
  tq_client_secret :: "string option"

text \<open>
  An introspection answer: \<open>{active: false}\<close>; for an access token the claims of the
  JWT; for a refresh token \<open>client_id\<close>, \<open>sub\<close>, \<open>exp\<close>, and \<open>model\<close> and \<open>scope\<close> of the
  linked token when it is still stored.
\<close>

datatype introspection =
    Inactive
  | ActiveBearer jwt_payload
  | ActiveRefresh string string int "string option" "string option"

fun active :: "introspection \<Rightarrow> bool" where
  "active Inactive = False"
| "active (ActiveBearer _) = True"
| "active (ActiveRefresh _ _ _ _ _) = True"

definition introspectAccessToken :: "int \<Rightarrow> store \<Rightarrow> token_string \<Rightarrow> string \<Rightarrow> introspection" where
  "introspectAccessToken now s t clientId =
     (case verifyAccessToken now t of
        None \<Rightarrow> Inactive
      | Some payload \<Rightarrow>
          (case getTokenByAccessToken s t of
             None \<Rightarrow> Inactive
           | Some tokenEntry \<Rightarrow>
               if tk_revoked tokenEntry then Inactive
               else if tk_client_id tokenEntry \<noteq> clientId then Inactive
               else if exp payload < now div 1000 then Inactive
               else ActiveBearer payload))"

definition introspectRefreshToken :: "int \<Rightarrow> store \<Rightarrow> token_string \<Rightarrow> string \<Rightarrow> introspection" where
  "introspectRefreshToken now s t clientId =
     (case getRefreshToken s t of
        None \<Rightarrow> Inactive
      | Some refreshToken \<Rightarrow>
          if rt_revoked refreshToken then Inactive
          else if rt_client_id refreshToken \<noteq> clientId then Inactive
          else if rt_expires_at refreshToken < now then Inactive
          else
            let originalToken = getToken s (rt_token_id refreshToken)
            in ActiveRefresh (rt_client_id refreshToken) (rt_agent_id refreshToken)
                 (rt_expires_at refreshToken div 1000)
                 (map_option tk_model originalToken) (map_option tk_scope originalToken))"

definition introspectHandler ::
  "libs \<Rightarrow> int \<Rightarrow> token_query option \<Rightarrow> store \<Rightarrow> http_error + introspection" where
  "introspectHandler L now body s =
     (case body of
        None \<Rightarrow> Inl server_error
      | Some b \<Rightarrow>
          if missing_token (tq_token b)
          then Inl (HttpError 400 ''invalid_request'' ''Missing token parameter'')
          else if missing (tq_client_id b) \<or> missing (tq_client_secret b)
          then Inl (HttpError 400 ''invalid_request'' ''Missing client credentials'')
          else
            let t = the (tq_token b); client_id = the (tq_client_id b);
                client_secret = the (tq_client_secret b)
            in (case getClient s client_id of
                  None \<Rightarrow> Inl (invalid_client ''Client not found'')
                | Some client \<Rightarrow>
                    if \<not> verifySecret L client_secret (client_secret_hash client)
                    then Inl (invalid_client ''Invalid client credentials'')
                    else if token_type_hint b = Some ''refresh_token''
                    then Inr (introspectRefreshToken now s t client_id)
                    else Inr (introspectAccessToken now s t client_id)))"

subsection \<open>Revocation: \<open>POST /revoke\<close> (\<open>oauth/revoke.ts\<close>)\<close>

text \<open>Both functions return whether they revoked, and the store.\<close>

definition revokeAccessToken :: "token_string \<Rightarrow> string \<Rightarrow> store \<Rightarrow> bool \<times> store" where
  "revokeAccessToken t clientId s =
     (case getTokenByAccessToken s t of
        None \<Rightarrow> (False, s)
      | Some tokenEntry \<Rightarrow>
          if tk_client_id tokenEntry \<noteq> clientId then (False, s)
          else
            let s1 = revokeTokenByAccessToken t s
            in (case refresh_token tokenEntry of
                  None \<Rightarrow> (True, s1)
                | Some rt \<Rightarrow>
                    if missing_token (Some rt) then (True, s1)
                    else (True, db_revokeRefreshToken rt s1)))"

definition revokeRefreshToken :: "token_string \<Rightarrow> string \<Rightarrow> store \<Rightarrow> bool \<times> store" where
  "revokeRefreshToken t clientId s =
     (case getRefreshToken s t of
        None \<Rightarrow> (False, s)
      | Some refreshToken \<Rightarrow>
          if rt_client_id refreshToken \<noteq> clientId then (False, s)
          else
            let s1 = db_revokeRefreshToken t s
            in (case getToken s1 (rt_token_id refreshToken) of
                  None \<Rightarrow> (True, s1)
                | Some tokenEntry \<Rightarrow> (True, revokeToken (token_id tokenEntry) s1)))"

text \<open>
  The reply \<open>Inr ()\<close> is HTTP 200 with the body \<open>{}\<close>; the handler's \<open>catch\<close> answers
  the same when the body cannot be read.
\<close>

definition revokeHandler ::
  "libs \<Rightarrow> token_query option \<Rightarrow> store \<Rightarrow> (http_error + unit) \<times> store" where
  "revokeHandler L body s =
     (case body of
        None \<Rightarrow> (Inr (), s)
      | Some b \<Rightarrow>
          if missing_token (tq_token b) then (Inr (), s)
          else if missing (tq_client_id b) \<or> missing (tq_client_secret b)
          then (Inl (invalid_client ''Missing client credentials''), s)
          else
            let t = the (tq_token b); client_id = the (tq_client_id b);
                client_secret = the (tq_client_secret b)
            in (case getClient s client_id of
                  None \<Rightarrow> (Inl (invalid_client ''Client not found''), s)
                | Some client \<Rightarrow>
                    if \<not> verifySecret L client_secret (client_secret_hash client)
                    then (Inl (invalid_client ''Invalid client credentials''), s)
                    else if token_type_hint b = Some ''refresh_token''
                    then (Inr (), snd (revokeRefreshToken t client_id s))
                    else
                      (case revokeAccessToken t client_id s of
                         (revokedAccess, s1) \<Rightarrow>
                           if \<not> revokedAccess
                           then (Inr (), snd (revokeRefreshToken t client_id s1))
                           else (Inr (), s1))))"

subsection \<open>The server as a sequence of steps\<close>

text \<open>
  The state of the server is the store and the calls to the agent back channel that are
  suspended at \<open>await verifySecret\<close>. A step carries everything it reads besides that
  state: the clock, the random strings it draws and the request. \<open>Authenticate\<close> runs
  the back channel up to its \<open>await\<close>; \<open>AuthenticateResume k rnd\<close> lets the \<open>k\<close>-th
  suspended call run to its end, at any later moment.
\<close>

type_synonym server = "store \<times> suspended_authenticate list"

datatype operation =
    Authorize int string authorize_query
  | Authenticate int "authenticate_body option"
  | AuthenticateResume nat string
  | CheckStatus int "string option"
  | Token int int string string "token_body option"
  | Introspect int "token_query option"
  | Revoke "token_query option"
  | Cleanup int

fun apply_op :: "libs \<Rightarrow> operation \<Rightarrow> server \<Rightarrow> server" where
  "apply_op L (Authorize now rnd q) (s, calls) = (snd (authorizeHandler L now rnd q s), calls)"
| "apply_op L (Authenticate now body) (s, calls) =
     (case agentAuthenticate_before_await L now body s of
        Inl (reply, s') \<Rightarrow> (s', calls)
      | Inr call \<Rightarrow> (s, calls @ [call]))"
| "apply_op L (AuthenticateResume k rnd) (s, calls) =
     (if k < length calls
      then (snd (agentAuthenticate_after_await rnd (calls ! k) s),
            take k calls @ drop (Suc k) calls)
      else (s, calls))"
| "apply_op L (CheckStatus now rid) (s, calls) = (snd (checkStatusHandler now rid s), calls)"
| "apply_op L (Token checked_at now tokenId_rnd refresh_rnd body) (s, calls) =
     (snd (tokenHandler L checked_at now tokenId_rnd refresh_rnd body s), calls)"
| "apply_op L (Introspect now body) (s, calls) = (s, calls)"
| "apply_op L (Revoke body) (s, calls) = (snd (revokeHandler L body s), calls)"
| "apply_op L (Cleanup now) (s, calls) = (cleanupExpired now s, calls)"

fun run :: "libs \<Rightarrow> operation list \<Rightarrow> server \<Rightarrow> server" where
  "run L [] sv = sv"
| "run L (op # ops) sv = run L ops (apply_op L op sv)"

text \<open>The request id that an operation may store a new request under.\<close>

fun draws_request_id :: "operation \<Rightarrow> string option" where
  "draws_request_id (Authorize now rnd q) = Some (generateRequestId rnd)"
| "draws_request_id _ = None"

text \<open>
  Whether every test of a request's expiry that the operation makes reads a clock later
  than \<open>t\<close>.
\<close>

fun served_after :: "int \<Rightarrow> operation \<Rightarrow> bool" where
  "served_after t (Authenticate now body) = (t < now)"
| "served_after t (CheckStatus now rid) = (t < now)"
| "served_after t (Token checked_at now tokenId_rnd refresh_rnd body) = (t < now)"
| "served_after t (Cleanup now) = (t < now)"
| "served_after t _ = True"

text \<open>The keys of the map of auth requests are distinct, as those of a \<open>Map\<close> are.\<close>

definition wf_requests :: "store \<Rightarrow> bool" where
  "wf_requests s = distinct (map fst (authRequests s))"

definition terminal :: "request_status \<Rightarrow> bool" where
  "terminal st = (st = Completed \<or> st = Expired \<or> st = Error)"

text \<open>Whether a reply of the status poll carries an authorization code.\<close>

fun carries_code :: "http_error + status_document \<Rightarrow> bool" where
  "carries_code (Inr (StatusAuthenticated c st uri)) = True"
| "carries_code _ = False"

text \<open>No call to the back channel for the request \<open>rid\<close> is suspended.\<close>

definition none_suspended :: "string \<Rightarrow> suspended_authenticate list \<Rightarrow> bool" where
  "none_suspended rid calls = list_all (\<lambda>call. sa_request_id call \<noteq> rid) calls"

text \<open>
  A request is settled at \<open>st\<close> when no call for it is suspended and it is gone, or its
  status is \<open>st\<close> or \<open>expired\<close>.
\<close>

definition settled :: "request_status \<Rightarrow> string \<Rightarrow> server \<Rightarrow> bool" where
  "settled st rid sv =
     (wf_requests (fst sv) \<and> none_suspended rid (snd sv) \<and>
      (case getAuthRequest (fst sv) rid of None \<Rightarrow> True
       | Some r \<Rightarrow> status r = st \<or> status r = Expired))"

text \<open>
  A request has lapsed at \<open>e\<close> when no call for it is suspended and it is gone, or it
  expires at \<open>e\<close> and is not authenticated.
\<close>

definition lapsed :: "int \<Rightarrow> string \<Rightarrow> server \<Rightarrow> bool" where
  "lapsed e rid sv =
     (wf_requests (fst sv) \<and> none_suspended rid (snd sv) \<and>
      (case getAuthRequest (fst sv) rid of None \<Rightarrow> True
       | Some r \<Rightarrow> status r \<noteq> Authenticated \<and> ar_expires_at r = e))"

subsection \<open>Sample data\<close>

text \<open>
  An excerpt of the library functions, enough to run the examples: on the arguments
  listed the values are those of bcrypt (cost 10), of SHA-256 in base64url without
  padding (the first pair is the example of RFC 7636, appendix B) and of the URL parser;
  on every other argument the excerpt answers \<open>False\<close> and the empty string.
\<close>

definition sample_lib :: libs where
  "sample_lib =
     \<lparr>bcrypt_compare = (\<lambda>secret hash.
          (secret = ''client-secret''
             \<and> hash = ''$2b$10$abcdefghijklmnopqrstuug7/j0kB6G6UBLyHaWnxg7264WTHI7fa'')
          \<or> (secret = ''agent-secret''
             \<and> hash = ''$2b$10$ABCDEFGHIJKLMNOPQRSTUuH5VJa3CHARkCn0ZaO6gUucmStDmtwvq'')),
      sha256_base64url = (\<lambda>v.
          if v = ''dBjftJeZ4CVP-mB92K27uhbUJU1p1r_wW1gFWFOEjXk''
          then ''E9Melhoa2OwvFrEMTJguCHaoeK1t8URWbuGJSstw-cM''
          else if v = ''wrong'' then ''iBCtWB5Z8rw5KLJhcHpxMI9-E56wSCA2bcTVwY2YAiU''
          else []),
      url_parses = (\<lambda>u. u = ''https://example.com/callback'')\<rparr>"

definition sample_client :: client where
  "sample_client =
     \<lparr>cl_client_id = ''client_demo'',
      client_secret_hash = ''$2b$10$abcdefghijklmnopqrstuug7/j0kB6G6UBLyHaWnxg7264WTHI7fa'',
      client_name = ''Demo'',
      allowed_redirect_uris = [''https://example.com/callback''],
      allowed_grant_types = [''authorization_code'', ''refresh_token''],
      cl_created_at = 1700000000000\<rparr>"

definition sample_agent :: agent where
  "sample_agent =
     \<lparr>ag_agent_id = ''agent_demo'',
      agent_secret_hash = ''$2b$10$ABCDEFGHIJKLMNOPQRSTUuH5VJa3CHARkCn0ZaO6gUucmStDmtwvq'',
      user_email = ''user@example.com'', user_name = ''User'',
      ag_created_at = 1700000000000\<rparr>"

definition sample_authorize :: authorize_query where
  "sample_authorize =
     \<lparr>aq_client_id = Some ''client_demo'',
      aq_redirect_uri = Some ''https://example.com/callback'', aq_state = Some ''xyz'',
      aq_code_challenge = Some ''E9Melhoa2OwvFrEMTJguCHaoeK1t8URWbuGJSstw-cM'',
      aq_code_challenge_method = Some ''S256'', aq_scope = None,
      response_type = Some ''code''\<rparr>"

text \<open>
  The request that \<open>/authorize\<close> stores for this query at time \<open>1700000000000\<close>:
  pending, ten minutes to live.
\<close>

definition sample_request :: auth_request where
  "sample_request =
     \<lparr>request_id = ''req_1'', ar_client_id = ''client_demo'',
      redirect_uri = ''https://example.com/callback'', state = ''xyz'',
      code_challenge = ''E9Melhoa2OwvFrEMTJguCHaoeK1t8URWbuGJSstw-cM'',
      code_challenge_method = ''S256'', ar_scope = ''openid profile'',
      code = None, ar_agent_id = None, ar_model = None, status = Pending, error = None,
      ar_created_at = 1700000000000,
      ar_expires_at = 1700000000000 + AUTH_REQUEST_EXPIRES_IN * 1000\<rparr>"

definition sample_store :: store where
  "sample_store =
     \<lparr>agents = [(''agent_demo'', sample_agent)], clients = [(''client_demo'', sample_client)],
      authRequests = [(''req_1'', sample_request)], tokens = [], refreshTokens = [],
      authorizationCodes = []\<rparr>"

definition sample_login :: authenticate_body where
  "sample_login =
     \<lparr>ab_request_id = Some ''req_1'', ab_agent_id = Some ''agent_demo'',
      ab_agent_secret = Some ''agent-secret'', ab_model = Some ''gpt-4''\<rparr>"

text \<open>The store after the agent has authenticated, one minute after \<open>/authorize\<close>.\<close>

definition authenticated_store :: store where
  "authenticated_store =
     snd (agentAuthenticateHandler sample_lib 1700000060000 ''r4nd0m'' (Some sample_login)
            sample_store)"

definition sample_exchange :: "string \<Rightarrow> token_body" where
  "sample_exchange verifier =
     \<lparr>grant_type = Some ''authorization_code'', tb_code = Some ''code_r4nd0m'',
      code_verifier = Some verifier, tb_client_id = Some ''client_demo'',
      tb_client_secret = Some ''client-secret'', tb_refresh_token = None\<rparr>"

definition sample_access_token :: token_string where
  "sample_access_token =
     Jwt JWT_SECRET
       \<lparr>sub = ''agent_demo'', jp_client_id = ''client_demo'', jp_model = ''gpt-4'',
        jp_scope = ''openid profile'', iat = 1700000120, exp = 1700003720, iss = JWT_ISSUER\<rparr>"

definition sample_token :: token where
  "sample_token =
     \<lparr>token_id = ''tok_t0k3n'', access_token = sample_access_token,
      refresh_token = Some (Opaque ''rt_r3fr3sh''), tk_agent_id = ''agent_demo'',
      tk_client_id = ''client_demo'', tk_model = ''gpt-4'', tk_scope = ''openid profile'',
      access_token_expires_at = 1700003720000,
      refresh_token_expires_at = Some 1702592120000,
      tk_created_at = 1700000120000, tk_revoked = False\<rparr>"

definition sample_refresh_entry :: refresh_token_entry where
  "sample_refresh_entry =
     \<lparr>rt_refresh_token = Opaque ''rt_r3fr3sh'', rt_token_id = ''tok_t0k3n'',
      rt_agent_id = ''agent_demo'', rt_client_id = ''client_demo'',
      rt_expires_at = 1702592120000, rt_revoked = False\<rparr>"

definition exchanged_store :: store where
  "exchanged_store =
     \<lparr>agents = [(''agent_demo'', sample_agent)], clients = [(''client_demo'', sample_client)],
      authRequests = [], tokens = [(''tok_t0k3n'', sample_token)],
      refreshTokens = [(Opaque ''rt_r3fr3sh'', sample_refresh_entry)],
      authorizationCodes = []\<rparr>"

definition sample_response :: token_response where
  "sample_response =
     \<lparr>tr_access_token = sample_access_token, token_type = ''Bearer'', expires_in = 3600,
      tr_refresh_token = Opaque ''rt_r3fr3sh'', tr_scope = ''openid profile''\<rparr>"

subsection \<open>The token invariant of the specification\<close>

text \<open>
  The invariant of the specification's data model, in its words: for any token,
  \<open>access_expires_at > created_at\<close> and \<open>refresh_expires_at \<ge> access_expires_at\<close>.
  A token without \<open>refresh_token_expires_at\<close> does not satisfy the second part.
\<close>

definition token_expiry_invariant :: "token \<Rightarrow> bool" where
  "token_expiry_invariant t =
     (tk_created_at t < access_token_expires_at t
      \<and> (case refresh_token_expires_at t of
            None \<Rightarrow> False
          | Some refresh_expires_at \<Rightarrow> access_token_expires_at t \<le> refresh_expires_at))"

subsection \<open>Sample data: refresh grants and revocation\<close>

text \<open>
  The refresh request of the sample client, and the token that a refresh grant stores one
  second before the refresh token expires.
\<close>

definition sample_refresh :: token_body where
  "sample_refresh =
     \<lparr>grant_type = Some ''refresh_token'', tb_code = None, code_verifier = None,
      tb_client_id = Some ''client_demo'', tb_client_secret = Some ''client-secret'',
      tb_refresh_token = Some (Opaque ''rt_r3fr3sh'')\<rparr>"

definition late_access_token :: token_string where
  "late_access_token =
     Jwt JWT_SECRET
       \<lparr>sub = ''agent_demo'', jp_client_id = ''client_demo'', jp_model = ''gpt-4'',
        jp_scope = ''openid profile'', iat = 1702592119, exp = 1702595719, iss = JWT_ISSUER\<rparr>"

definition late_token :: token where
  "late_token =
     \<lparr>token_id = ''tok_l4t3'', access_token = late_access_token,
      refresh_token = Some (Opaque ''rt_r3fr3sh''), tk_agent_id = ''agent_demo'',
      tk_client_id = ''client_demo'', tk_model = ''gpt-4'', tk_scope = ''openid profile'',
      access_token_expires_at = 1702595719000,
      refresh_token_expires_at = Some 1702592120000,
      tk_created_at = 1702592119000, tk_revoked = False\<rparr>"

definition late_response :: token_response where
  "late_response =
     \<lparr>tr_access_token = late_access_token, token_type = ''Bearer'', expires_in = 3600,
      tr_refresh_token = Opaque ''rt_r3fr3sh'', tr_scope = ''openid profile''\<rparr>"

definition late_store :: store where
  "late_store =
     exchanged_store\<lparr>tokens := [(''tok_t0k3n'', sample_token), (''tok_l4t3'', late_token)]\<rparr>"

text \<open>The store after the first poll, one second after the agent has authenticated.\<close>

definition completed_store :: store where
  "completed_store = snd (checkStatusHandler 1700000061000 (Some ''req_1'') authenticated_store)"

text \<open>
  The store after an agent has tried to authenticate the pending sample request at
  \<open>1700000700000\<close>, one hundred seconds after it expired.
\<close>

definition expired_store :: store where
  "expired_store =
     sample_store\<lparr>authRequests :=
       [(''req_1'', sample_request\<lparr>status := Expired, error := Some ''Auth request expired''\<rparr>)]\<rparr>"

text \<open>
  A refresh grant forty-eight minutes after the exchange (the first access token is
  still valid), and the revocation of the refresh token after it.
\<close>

definition new_access_token :: token_string where
  "new_access_token =
     Jwt JWT_SECRET
       \<lparr>sub = ''agent_demo'', jp_client_id = ''client_demo'', jp_model = ''gpt-4'',
        jp_scope = ''openid profile'', iat = 1700003000, exp = 1700006600, iss = JWT_ISSUER\<rparr>"

definition new_token :: token where
  "new_token =
     \<lparr>token_id = ''tok_n3w'', access_token = new_access_token,
      refresh_token = Some (Opaque ''rt_r3fr3sh''), tk_agent_id = ''agent_demo'',
      tk_client_id = ''client_demo'', tk_model = ''gpt-4'', tk_scope = ''openid profile'',
      access_token_expires_at = 1700006600000,
      refresh_token_expires_at = Some 1702592120000,
      tk_created_at = 1700003000000, tk_revoked = False\<rparr>"

definition refreshed_store :: store where
  "refreshed_store =
     exchanged_store\<lparr>tokens := [(''tok_t0k3n'', sample_token), (''tok_n3w'', new_token)]\<rparr>"

definition revoked_store :: store where
  "revoked_store =
     exchanged_store\<lparr>
       tokens := [(''tok_t0k3n'', sample_token\<lparr>tk_revoked := True\<rparr>), (''tok_n3w'', new_token)],
       refreshTokens := [(Opaque ''rt_r3fr3sh'', sample_refresh_entry\<lparr>rt_revoked := True\<rparr>)]\<rparr>"

definition sample_query :: "token_string \<Rightarrow> string option \<Rightarrow> token_query" where
  "sample_query t hint =
     \<lparr>tq_token = Some t, token_type_hint = hint, tq_client_id = Some ''client_demo'',
      tq_client_secret = Some ''client-secret''\<rparr>"

text \<open>
  A call to the back channel for the sample request, suspended at \<open>await verifySecret\<close>
  with valid credentials; and the store after such a call has run to its end, with the
  random string \<open>s3c0nd\<close>, on the store that the first poll has left.
\<close>

definition sample_call :: suspended_authenticate where
  "sample_call =
     \<lparr>sa_request_id = ''req_1'', sa_agent_id = ''agent_demo'', sa_model = ''gpt-4'',
      isValidSecret = True\<rparr>"

definition reauthenticated_store :: store where
  "reauthenticated_store =
     sample_store\<lparr>
       authRequests :=
         [(''req_1'', sample_request\<lparr>ar_agent_id := Some ''agent_demo'', ar_model := Some ''gpt-4'',
              code := Some ''code_s3c0nd'', status := Authenticated\<rparr>)],
       authorizationCodes := [(''code_r4nd0m'', ''req_1''), (''code_s3c0nd'', ''req_1'')]\<rparr>"

section \<open>Properties\<close>

subsection \<open>The map of auth requests under the store operations\<close>

lemma getAuthRequest_updateAuthRequest:
  "getAuthRequest (updateAuthRequest rid' f s) rid =
     (if rid = rid' then map_option f (getAuthRequest s rid) else getAuthRequest s rid)"
  by (simp add: getAuthRequest_def updateAuthRequest_def update_conv' split: option.splits)

lemma getAuthRequest_deleteAuthRequest:
  "getAuthRequest (deleteAuthRequest rid' s) rid =
     (if rid = rid' then None else getAuthRequest s rid)"
  by (simp add: getAuthRequest_def deleteAuthRequest_def delete_conv')

lemma getAuthRequest_other_fields:
  "getAuthRequest (storeAuthCode c rid' s) rid = getAuthRequest s rid"
  "getAuthRequest (deleteAuthCode c s) rid = getAuthRequest s rid"
  "getAuthRequest (createToken t s) rid = getAuthRequest s rid"
  "getAuthRequest (createRefreshToken e s) rid = getAuthRequest s rid"
  "getAuthRequest (revokeToken tid s) rid = getAuthRequest s rid"
  "getAuthRequest (revokeTokenByAccessToken a s) rid = getAuthRequest s rid"
  "getAuthRequest (db_revokeRefreshToken rt s) rid = getAuthRequest s rid"
  by (simp_all add: getAuthRequest_def storeAuthCode_def deleteAuthCode_def createToken_def
        createRefreshToken_def revokeToken_def revokeTokenByAccessToken_def
        db_revokeRefreshToken_def split: option.splits)

lemma getAuthRequest_createAuthRequest:
  "getAuthRequest (createAuthRequest r s) rid =
     (if rid = request_id r then Some r else getAuthRequest s rid)"
  by (simp add: getAuthRequest_def createAuthRequest_def update_conv')

lemma wf_requests_createAuthRequest:
  "wf_requests s \<Longrightarrow> wf_requests (createAuthRequest r s)"
  by (simp add: wf_requests_def createAuthRequest_def distinct_update)

lemma map_of_filter_distinct:
  "distinct (map fst al) \<Longrightarrow>
   map_of (filter P al) k = (case map_of al k of None \<Rightarrow> None
                             | Some v \<Rightarrow> if P (k, v) then Some v else None)"
proof (induction al)
  case Nil
  then show ?case by simp
next
  case (Cons p al)
  obtain k' v' where p: "p = (k', v')" by (cases p)
  from Cons.prems have notin: "k' \<notin> fst ` set al" and d: "distinct (map fst al)"
    by (simp_all add: p)
  from notin have none: "map_of al k' = None" by (simp add: map_of_eq_None_iff)
  show ?case
  proof (cases "k = k'")
    case True
    then show ?thesis using none notin
      by (auto simp: p map_of_eq_None_iff)
  next
    case False
    then show ?thesis using Cons.IH [OF d] by (simp add: p)
  qed
qed

lemma getAuthRequest_cleanupExpired:
  "wf_requests s \<Longrightarrow>
   getAuthRequest (cleanupExpired now s) rid =
     (case getAuthRequest s rid of None \<Rightarrow> None
      | Some r \<Rightarrow> if ar_expires_at r < now then None else Some r)"
  by (simp add: getAuthRequest_def cleanupExpired_def wf_requests_def map_of_filter_distinct
        split: option.splits)

lemma wf_requests_updateAuthRequest:
  "wf_requests s \<Longrightarrow> wf_requests (updateAuthRequest rid f s)"
  by (simp add: wf_requests_def updateAuthRequest_def distinct_update split: option.splits)

lemma wf_requests_store_ops:
  "wf_requests s \<Longrightarrow> wf_requests (deleteAuthRequest rid s)"
  "wf_requests (storeAuthCode c rid s) = wf_requests s"
  "wf_requests (deleteAuthCode c s) = wf_requests s"
  "wf_requests (createToken t s) = wf_requests s"
  "wf_requests (createRefreshToken e s) = wf_requests s"
  "wf_requests (revokeToken tid s) = wf_requests s"
  "wf_requests (revokeTokenByAccessToken a s) = wf_requests s"
  "wf_requests (db_revokeRefreshToken rt s) = wf_requests s"
  "wf_requests s \<Longrightarrow> wf_requests (cleanupExpired now s)"
  by (simp_all add: wf_requests_def updateAuthRequest_def deleteAuthRequest_def storeAuthCode_def
        deleteAuthCode_def createToken_def createRefreshToken_def revokeToken_def
        revokeTokenByAccessToken_def db_revokeRefreshToken_def cleanupExpired_def
        distinct_update distinct_delete distinct_map_filter split: option.splits)

lemmas request_simps = getAuthRequest_updateAuthRequest getAuthRequest_deleteAuthRequest
  getAuthRequest_other_fields wf_requests_updateAuthRequest wf_requests_store_ops

subsection \<open>The back channel and its two parts\<close>

lemma agentAuthenticateHandler_parts:
  "agentAuthenticateHandler L now rnd body s =
     (case agentAuthenticate_before_await L now body s of
        Inl answer \<Rightarrow> answer
      | Inr call \<Rightarrow> agentAuthenticate_after_await rnd call s)"
  unfolding agentAuthenticateHandler_def agentAuthenticate_before_await_def
    agentAuthenticate_after_await_def
  by (simp add: Let_def split: option.splits)

lemma before_await_suspended:
  assumes "agentAuthenticate_before_await L now body s = Inr call"
  shows "\<exists>r. getAuthRequest s (sa_request_id call) = Some r \<and> status r = Pending
            \<and> \<not> ar_expires_at r < now"
  using assms unfolding agentAuthenticate_before_await_def
  by (auto simp: Let_def split: option.splits if_splits)

lemma before_await_answered:
  assumes "agentAuthenticate_before_await L now body s = Inl (reply, s')"
  shows "s' = s
       \<or> (\<exists>rid' r'. getAuthRequest s rid' = Some r' \<and> ar_expires_at r' < now
             \<and> s' = updateAuthRequest rid'
                      (\<lambda>r. r\<lparr>status := Expired, error := Some ''Auth request expired''\<rparr>) s)
       \<or> (\<exists>rid' r'. getAuthRequest s rid' = Some r' \<and> status r' = Pending
             \<and> s' = updateAuthRequest rid'
                      (\<lambda>r. r\<lparr>status := Error, error := Some ''Invalid agent credentials''\<rparr>) s)"
  using assms unfolding agentAuthenticate_before_await_def
  by (auto simp: Let_def split: option.splits if_splits)

lemma after_await_requests:
  assumes "sa_request_id call \<noteq> rid"
  shows "getAuthRequest (snd (agentAuthenticate_after_await rnd call s)) rid = getAuthRequest s rid"
  using assms unfolding agentAuthenticate_after_await_def
  by (simp add: Let_def request_simps)

lemma after_await_wf:
  "wf_requests s \<Longrightarrow> wf_requests (snd (agentAuthenticate_after_await rnd call s))"
  unfolding agentAuthenticate_after_await_def
  by (simp add: Let_def request_simps)

lemma none_suspended_simps:
  "none_suspended rid []"
  "none_suspended rid (calls @ [call]) \<longleftrightarrow> none_suspended rid calls \<and> sa_request_id call \<noteq> rid"
  by (auto simp: none_suspended_def)

lemma none_suspended_resume:
  assumes "none_suspended rid calls"
  shows "none_suspended rid (take k calls @ drop (Suc k) calls)"
    and "k < length calls \<Longrightarrow> sa_request_id (calls ! k) \<noteq> rid"
  using assms
  by (auto simp: none_suspended_def list_all_iff dest: in_set_takeD in_set_dropD)

subsection \<open>What each step does to one request\<close>

lemma before_await_request:
  assumes "agentAuthenticate_before_await L now body s = Inl (reply, s')"
  shows "getAuthRequest s' rid = getAuthRequest s rid
       \<or> (\<exists>r. getAuthRequest s rid = Some r \<and> ar_expires_at r < now
             \<and> getAuthRequest s' rid
                 = Some (r\<lparr>status := Expired, error := Some ''Auth request expired''\<rparr>))
       \<or> (\<exists>r. getAuthRequest s rid = Some r \<and> status r = Pending
             \<and> getAuthRequest s' rid
                 = Some (r\<lparr>status := Error, error := Some ''Invalid agent credentials''\<rparr>))"
proof -
  from before_await_answered [OF assms]
  consider (same) "s' = s"
    | (expired) rid' r' where "getAuthRequest s rid' = Some r'" "ar_expires_at r' < now"
        "s' = updateAuthRequest rid'
                (\<lambda>r. r\<lparr>status := Expired, error := Some ''Auth request expired''\<rparr>) s"
    | (failed) rid' r' where "getAuthRequest s rid' = Some r'" "status r' = Pending"
        "s' = updateAuthRequest rid'
                (\<lambda>r. r\<lparr>status := Error, error := Some ''Invalid agent credentials''\<rparr>) s"
    by blast
  then show ?thesis
  proof cases
    case same
    then show ?thesis by simp
  next
    case expired
    then show ?thesis
      by (cases "rid = rid'") (simp_all add: getAuthRequest_updateAuthRequest)
  next
    case failed
    then show ?thesis
      by (cases "rid = rid'") (simp_all add: getAuthRequest_updateAuthRequest)
  qed
qed

lemma before_await_wf:
  assumes "agentAuthenticate_before_await L now body s = Inl (reply, s')" "wf_requests s"
  shows "wf_requests s'"
proof -
  from before_await_answered [OF assms(1)]
  obtain rid' f where "s' = s \<or> s' = updateAuthRequest rid' f s" by blast
  with assms(2) show ?thesis by (auto simp: wf_requests_updateAuthRequest)
qed

lemma checkStatus_store:
  "snd (checkStatusHandler now q s) = s
   \<or> (\<exists>r. getAuthRequest s (the q) = Some r \<and> status r = Pending \<and> ar_expires_at r < now
         \<and> snd (checkStatusHandler now q s)
             = updateAuthRequest (the q)
                 (\<lambda>r. r\<lparr>status := Expired, error := Some ''Auth request expired''\<rparr>) s)
   \<or> (\<exists>r. getAuthRequest s (the q) = Some r \<and> status r = Authenticated
         \<and> snd (checkStatusHandler now q s)
             = updateAuthRequest (the q) (\<lambda>r. r\<lparr>status := Completed\<rparr>) s)"
  unfolding checkStatusHandler_def
  by (simp add: Let_def split: option.splits)

lemma checkStatus_request:
  "getAuthRequest (snd (checkStatusHandler now q s)) rid = getAuthRequest s rid
   \<or> (\<exists>r. getAuthRequest s rid = Some r \<and> status r = Pending \<and> ar_expires_at r < now
         \<and> getAuthRequest (snd (checkStatusHandler now q s)) rid
             = Some (r\<lparr>status := Expired, error := Some ''Auth request expired''\<rparr>))
   \<or> (\<exists>r. getAuthRequest s rid = Some r \<and> status r = Authenticated
         \<and> getAuthRequest (snd (checkStatusHandler now q s)) rid
             = Some (r\<lparr>status := Completed\<rparr>))"
proof -
  from checkStatus_store [of now q s]
  consider (same) "snd (checkStatusHandler now q s) = s"
    | (expired) r where "getAuthRequest s (the q) = Some r" "status r = Pending"
        "ar_expires_at r < now"
        "snd (checkStatusHandler now q s)
           = updateAuthRequest (the q)
               (\<lambda>r. r\<lparr>status := Expired, error := Some ''Auth request expired''\<rparr>) s"
    | (completed) r where "getAuthRequest s (the q) = Some r" "status r = Authenticated"
        "snd (checkStatusHandler now q s)
           = updateAuthRequest (the q) (\<lambda>r. r\<lparr>status := Completed\<rparr>) s"
    by blast
  then show ?thesis
  proof cases
    case same
    then show ?thesis by simp
  next
    case expired
    then show ?thesis
      by (cases "rid = the q") (simp_all add: getAuthRequest_updateAuthRequest)
  next
    case completed
    then show ?thesis
      by (cases "rid = the q") (simp_all add: getAuthRequest_updateAuthRequest)
  qed
qed

lemma checkStatus_wf:
  "wf_requests s \<Longrightarrow> wf_requests (snd (checkStatusHandler now q s))"
  unfolding checkStatusHandler_def
  by (simp add: Let_def wf_requests_updateAuthRequest split: option.splits)

lemma authorizationCode_request:
  "getAuthRequest (snd (handleAuthorizationCodeGrant L now a b params s)) rid = None
   \<or> getAuthRequest (snd (handleAuthorizationCodeGrant L now a b params s)) rid
       = getAuthRequest s rid"
  unfolding handleAuthorizationCodeGrant_def
  by (simp add: Let_def request_simps split: option.splits)

lemma authorizationCode_wf:
  "wf_requests s \<Longrightarrow> wf_requests (snd (handleAuthorizationCodeGrant L now a b params s))"
  unfolding handleAuthorizationCodeGrant_def
  by (simp add: Let_def request_simps split: option.splits)

lemma refresh_request:
  "getAuthRequest (snd (handleRefreshTokenGrant L checked_at now a params s)) rid
     = getAuthRequest s rid"
  unfolding handleRefreshTokenGrant_def
  by (simp add: Let_def request_simps split: option.splits)

lemma refresh_wf:
  "wf_requests s \<Longrightarrow> wf_requests (snd (handleRefreshTokenGrant L checked_at now a params s))"
  unfolding handleRefreshTokenGrant_def
  by (simp add: Let_def request_simps split: option.splits)

lemma token_request:
  "getAuthRequest (snd (tokenHandler L checked_at now a b body s)) rid = None
   \<or> getAuthRequest (snd (tokenHandler L checked_at now a b body s)) rid = getAuthRequest s rid"
proof (cases body)
  case None
  then show ?thesis by (simp add: tokenHandler_def)
next
  case (Some params)
  then show ?thesis
    using authorizationCode_request [of L now a b params s rid]
    by (simp add: tokenHandler_def refresh_request)
qed

lemma token_wf:
  "wf_requests s \<Longrightarrow> wf_requests (snd (tokenHandler L checked_at now a b body s))"
  unfolding tokenHandler_def
  by (simp add: refresh_wf authorizationCode_wf split: option.splits)

lemma authorize_request:
  assumes "generateRequestId rnd \<noteq> rid"
  shows "getAuthRequest (snd (authorizeHandler L now rnd q s)) rid = getAuthRequest s rid"
  using assms unfolding authorizeHandler_def
  by (simp add: Let_def getAuthRequest_createAuthRequest split: option.splits)

lemma authorize_wf:
  "wf_requests s \<Longrightarrow> wf_requests (snd (authorizeHandler L now rnd q s))"
  unfolding authorizeHandler_def
  by (simp add: Let_def wf_requests_createAuthRequest split: option.splits)

lemma revokeAccessToken_requests:
  "getAuthRequest (snd (revokeAccessToken t cid s)) rid = getAuthRequest s rid"
  "wf_requests s \<Longrightarrow> wf_requests (snd (revokeAccessToken t cid s))"
  unfolding revokeAccessToken_def
  by (simp_all add: Let_def request_simps split: option.splits)

lemma revokeRefreshToken_requests:
  "getAuthRequest (snd (revokeRefreshToken t cid s)) rid = getAuthRequest s rid"
  "wf_requests s \<Longrightarrow> wf_requests (snd (revokeRefreshToken t cid s))"
  unfolding revokeRefreshToken_def
  by (simp_all add: Let_def request_simps split: option.splits)

lemma revoke_fallback_requests:
  "getAuthRequest (snd (case revokeAccessToken t cid s of
       (revokedAccess, s1) \<Rightarrow>
         if \<not> revokedAccess then (Inr (), snd (revokeRefreshToken t cid s1))
         else (Inr (), s1))) rid = getAuthRequest s rid" (is ?A)
  "wf_requests s \<Longrightarrow> wf_requests (snd (case revokeAccessToken t cid s of
       (revokedAccess, s1) \<Rightarrow>
         if \<not> revokedAccess then (Inr (), snd (revokeRefreshToken t cid s1))
         else (Inr (), s1)))" (is "_ \<Longrightarrow> ?B")
proof -
  obtain b s1 where r: "revokeAccessToken t cid s = (b, s1)"
    by (cases "revokeAccessToken t cid s")
  then have s1: "s1 = snd (revokeAccessToken t cid s)" by simp
  have a: "getAuthRequest s1 rid = getAuthRequest s rid"
    unfolding s1 by (rule revokeAccessToken_requests)
  have w: "wf_requests s \<Longrightarrow> wf_requests s1"
    unfolding s1 by (rule revokeAccessToken_requests)
  show ?A using r a by (simp add: revokeRefreshToken_requests)
  show "wf_requests s \<Longrightarrow> ?B" using r w by (simp add: revokeRefreshToken_requests)
qed

lemma revokeHandler_requests:
  "getAuthRequest (snd (revokeHandler L body s)) rid = getAuthRequest s rid"
  "wf_requests s \<Longrightarrow> wf_requests (snd (revokeHandler L body s))"
  unfolding revokeHandler_def
  by (simp_all add: Let_def revokeRefreshToken_requests revoke_fallback_requests
        split: option.splits)

subsection \<open>Settled requests stay settled\<close>

lemma settledI:
  assumes "settled st rid (s, calls)" and "wf_requests s'"
    and "getAuthRequest s' rid = None \<or> getAuthRequest s' rid = getAuthRequest s rid
         \<or> (\<exists>r'. getAuthRequest s' rid = Some r' \<and> status r' = Expired)"
  shows "settled st rid (s', calls)"
  using assms by (auto simp: settled_def split: option.splits)

lemma apply_op_settled:
  assumes t: "terminal st" and inv: "settled st rid sv"
    and fresh: "draws_request_id op \<noteq> Some rid"
  shows "settled st rid (apply_op L op sv)"
proof -
  obtain s calls where sv: "sv = (s, calls)" by (cases sv)
  from inv have wf: "wf_requests s" and none: "none_suspended rid calls"
    and st: "\<And>r. getAuthRequest s rid = Some r \<Longrightarrow> status r = st \<or> status r = Expired"
    by (auto simp: settled_def sv)
  from t have np: "st \<noteq> Pending" and na: "st \<noteq> Authenticated"
    by (auto simp: terminal_def)
  note inv' = inv [unfolded sv]
  show ?thesis
  proof (cases op)
    case (Authorize now rnd q)
    with fresh have "generateRequestId rnd \<noteq> rid" by simp
    then show ?thesis unfolding sv Authorize
      by (simp add: settledI [OF inv'] authorize_wf wf authorize_request)
  next
    case (Authenticate now body)
    show ?thesis
    proof (cases "agentAuthenticate_before_await L now body s")
      case (Inl answer)
      obtain reply s' where a: "answer = (reply, s')" by (cases answer)
      from before_await_request [OF Inl [unfolded a], of rid] st np
      have "getAuthRequest s' rid = None \<or> getAuthRequest s' rid = getAuthRequest s rid
         \<or> (\<exists>r'. getAuthRequest s' rid = Some r' \<and> status r' = Expired)"
        by auto
      from settledI [OF inv' before_await_wf [OF Inl [unfolded a] wf] this]
      show ?thesis unfolding sv Authenticate by (simp add: Inl a)
    next
      case (Inr call)
      from before_await_suspended [OF Inr] st np
      have "sa_request_id call \<noteq> rid" by auto
      with inv' show ?thesis unfolding sv Authenticate
        by (simp add: Inr settled_def none_suspended_simps)
    qed
  next
    case (AuthenticateResume k rnd)
    show ?thesis
    proof (cases "k < length calls")
      case True
      with none have other: "sa_request_id (calls ! k) \<noteq> rid"
        by (rule none_suspended_resume(2))
      from inv' show ?thesis unfolding sv AuthenticateResume
        by (simp add: True settled_def after_await_requests [OF other] after_await_wf
              none_suspended_resume(1))
    next
      case False
      with inv' show ?thesis unfolding sv AuthenticateResume by simp
    qed
  next
    case (CheckStatus now q)
    from checkStatus_request [of now q s rid] st na
    have "getAuthRequest (snd (checkStatusHandler now q s)) rid = None
        \<or> getAuthRequest (snd (checkStatusHandler now q s)) rid = getAuthRequest s rid
        \<or> (\<exists>r'. getAuthRequest (snd (checkStatusHandler now q s)) rid = Some r'
               \<and> status r' = Expired)"
      by auto
    from settledI [OF inv' checkStatus_wf [OF wf] this]
    show ?thesis unfolding sv CheckStatus by simp
  next
    case (Token checked_at now a b body)
    from token_request [of L checked_at now a b body s rid]
    have "getAuthRequest (snd (tokenHandler L checked_at now a b body s)) rid = None
        \<or> getAuthRequest (snd (tokenHandler L checked_at now a b body s)) rid
            = getAuthRequest s rid
        \<or> (\<exists>r'. getAuthRequest (snd (tokenHandler L checked_at now a b body s)) rid = Some r'
               \<and> status r' = Expired)"
      by auto
    from settledI [OF inv' token_wf [OF wf] this]
    show ?thesis unfolding sv Token by simp
  next
    case (Introspect now body)
    with inv' show ?thesis unfolding sv by simp
  next
    case (Revoke body)
    from settledI [OF inv' revokeHandler_requests(2) [OF wf], of L body]
    show ?thesis unfolding sv Revoke by (simp add: revokeHandler_requests(1))
  next
    case (Cleanup now)
    have "getAuthRequest (cleanupExpired now s) rid = None
        \<or> getAuthRequest (cleanupExpired now s) rid = getAuthRequest s rid
        \<or> (\<exists>r'. getAuthRequest (cleanupExpired now s) rid = Some r' \<and> status r' = Expired)"
      by (simp add: getAuthRequest_cleanupExpired [OF wf] split: option.splits)
    from settledI [OF inv' wf_requests_store_ops(9) [OF wf] this]
    show ?thesis unfolding sv Cleanup by simp
  qed
qed

lemma run_settled:
  assumes "terminal st" and "settled st rid sv"
    and "\<forall>op \<in> set ops. draws_request_id op \<noteq> Some rid"
  shows "settled st rid (run L ops sv)"
  using assms(2,3)
proof (induction ops arbitrary: sv)
  case Nil
  then show ?case by simp
next
  case (Cons op ops)
  then show ?case using apply_op_settled [OF assms(1)] by simp
qed

lemma settled_no_code:
  assumes "terminal st" and "settled st rid sv"
  shows "\<not> carries_code (fst (checkStatusHandler now (Some rid) (fst sv)))"
proof (cases "getAuthRequest (fst sv) rid")
  case None
  then show ?thesis unfolding checkStatusHandler_def by (simp add: Let_def)
next
  case (Some r)
  with assms have "status r \<noteq> Authenticated"
    by (auto simp: settled_def terminal_def)
  with Some show ?thesis unfolding checkStatusHandler_def by (simp add: Let_def)
qed

subsection \<open>Lapsed requests are never authenticated\<close>

lemma lapsedI:
  assumes "lapsed e rid (s, calls)" and "wf_requests s'"
    and "getAuthRequest s' rid = None \<or> getAuthRequest s' rid = getAuthRequest s rid
         \<or> (\<exists>r'. getAuthRequest s' rid = Some r' \<and> status r' \<noteq> Authenticated
               \<and> ar_expires_at r' = e)"
  shows "lapsed e rid (s', calls)"
  using assms by (auto simp: lapsed_def split: option.splits)

lemma apply_op_lapsed:
  assumes inv: "lapsed e rid sv"
    and fresh: "draws_request_id op \<noteq> Some rid"
    and late: "served_after e op"
  shows "lapsed e rid (apply_op L op sv)"
proof -
  obtain s calls where sv: "sv = (s, calls)" by (cases sv)
  from inv have wf: "wf_requests s" and none: "none_suspended rid calls"
    and st: "\<And>r. getAuthRequest s rid = Some r \<Longrightarrow>
               status r \<noteq> Authenticated \<and> ar_expires_at r = e"
    by (auto simp: lapsed_def sv)
  note inv' = inv [unfolded sv]
  show ?thesis
  proof (cases op)
    case (Authorize now rnd q)
    with fresh have "generateRequestId rnd \<noteq> rid" by simp
    then show ?thesis unfolding sv Authorize
      by (simp add: lapsedI [OF inv'] authorize_wf wf authorize_request)
  next
    case (Authenticate now body)
    show ?thesis
    proof (cases "agentAuthenticate_before_await L now body s")
      case (Inl answer)
      obtain reply s' where a: "answer = (reply, s')" by (cases answer)
      from before_await_request [OF Inl [unfolded a], of rid] st
      have "getAuthRequest s' rid = None \<or> getAuthRequest s' rid = getAuthRequest s rid
         \<or> (\<exists>r'. getAuthRequest s' rid = Some r' \<and> status r' \<noteq> Authenticated
               \<and> ar_expires_at r' = e)"
        by auto
      from lapsedI [OF inv' before_await_wf [OF Inl [unfolded a] wf] this]
      show ?thesis unfolding sv Authenticate by (simp add: Inl a)
    next
      case (Inr call)
      from late have "e < now" by (simp add: Authenticate)
      with before_await_suspended [OF Inr] st
      have "sa_request_id call \<noteq> rid" by auto
      with inv' show ?thesis unfolding sv Authenticate
        by (simp add: Inr lapsed_def none_suspended_simps)
    qed
  next
    case (AuthenticateResume k rnd)
    show ?thesis
    proof (cases "k < length calls")
      case True
      with none have other: "sa_request_id (calls ! k) \<noteq> rid"
        by (rule none_suspended_resume(2))
      from inv' show ?thesis unfolding sv AuthenticateResume
        by (simp add: True lapsed_def after_await_requests [OF other] after_await_wf
              none_suspended_resume(1))
    next
      case False
      with inv' show ?thesis unfolding sv AuthenticateResume by simp
    qed
  next
    case (CheckStatus now q)
    from checkStatus_request [of now q s rid] st
    have "getAuthRequest (snd (checkStatusHandler now q s)) rid = None
        \<or> getAuthRequest (snd (checkStatusHandler now q s)) rid = getAuthRequest s rid
        \<or> (\<exists>r'. getAuthRequest (snd (checkStatusHandler now q s)) rid = Some r'
               \<and> status r' \<noteq> Authenticated \<and> ar_expires_at r' = e)"
      by auto
    from lapsedI [OF inv' checkStatus_wf [OF wf] this]
    show ?thesis unfolding sv CheckStatus by simp
  next
    case (Token checked_at now a b body)
    from token_request [of L checked_at now a b body s rid]
    have "getAuthRequest (snd (tokenHandler L checked_at now a b body s)) rid = None
        \<or> getAuthRequest (snd (tokenHandler L checked_at now a b body s)) rid
            = getAuthRequest s rid
        \<or> (\<exists>r'. getAuthRequest (snd (tokenHandler L checked_at now a b body s)) rid = Some r'
               \<and> status r' \<noteq> Authenticated \<and> ar_expires_at r' = e)"
      by auto
    from lapsedI [OF inv' token_wf [OF wf] this]
    show ?thesis unfolding sv Token by simp
  next
    case (Introspect now body)
    with inv' show ?thesis unfolding sv by simp
  next
    case (Revoke body)
    from lapsedI [OF inv' revokeHandler_requests(2) [OF wf], of L body]
    show ?thesis unfolding sv Revoke by (simp add: revokeHandler_requests(1))
  next
    case (Cleanup now)
    have "getAuthRequest (cleanupExpired now s) rid = None
        \<or> getAuthRequest (cleanupExpired now s) rid = getAuthRequest s rid
        \<or> (\<exists>r'. getAuthRequest (cleanupExpired now s) rid = Some r'
               \<and> status r' \<noteq> Authenticated \<and> ar_expires_at r' = e)"
      by (simp add: getAuthRequest_cleanupExpired [OF wf] split: option.splits)
    from lapsedI [OF inv' wf_requests_store_ops(9) [OF wf] this]
    show ?thesis unfolding sv Cleanup by simp
  qed
qed

lemma run_lapsed:
  assumes "lapsed e rid sv"
    and "\<forall>op \<in> set ops. draws_request_id op \<noteq> Some rid \<and> served_after e op"
  shows "lapsed e rid (run L ops sv)"
  using assms
proof (induction ops arbitrary: sv)
  case Nil
  then show ?case by simp
next
  case (Cons op ops)
  then show ?case using apply_op_lapsed [of e rid sv op L] by simp
qed

lemma lapsed_no_code:
  assumes "lapsed e rid sv"
  shows "\<not> carries_code (fst (checkStatusHandler now (Some rid) (fst sv)))"
proof (cases "getAuthRequest (fst sv) rid")
  case None
  then show ?thesis unfolding checkStatusHandler_def by (simp add: Let_def)
next
  case (Some r)
  with assms have "status r \<noteq> Authenticated"
    by (auto simp: lapsed_def)
  with Some show ?thesis unfolding checkStatusHandler_def by (simp add: Let_def)
qed

subsection \<open>Evaluation on the sample data\<close>

lemmas store_defs = getAgent_def getClient_def createAuthRequest_def getAuthRequest_def
  updateAuthRequest_def deleteAuthRequest_def storeAuthCode_def getAuthCodeRequestId_def
  deleteAuthCode_def createToken_def getToken_def getTokenByAccessToken_def revokeToken_def
  revokeTokenByAccessToken_def createRefreshToken_def getRefreshToken_def
  db_revokeRefreshToken_def cleanupExpired_def

lemmas sample_defs = sample_lib_def sample_client_def sample_agent_def sample_request_def
  sample_store_def sample_login_def sample_exchange_def

lemma sample_store_eq:
  "authorizeHandler sample_lib 1700000000000 ''1'' sample_authorize
     (sample_store\<lparr>authRequests := []\<rparr>) = (SpinningPage ''req_1'' ''Demo'', sample_store)"
  unfolding authorizeHandler_def
  by (simp add: sample_defs sample_authorize_def store_defs missing_def Let_def
        isValidClientId_def id_char_def isValidUrl_def isValidCodeChallengeMethod_def
        isAllowedRedirectUri_def generateRequestId_def DEFAULT_SCOPE_def
        AUTH_REQUEST_EXPIRES_IN_def)

lemma authenticated_store_eq:
  "authenticated_store =
     sample_store\<lparr>
       authRequests :=
         [(''req_1'', sample_request\<lparr>ar_agent_id := Some ''agent_demo'', ar_model := Some ''gpt-4'',
              code := Some ''code_r4nd0m'', status := Authenticated\<rparr>)],
       authorizationCodes := [(''code_r4nd0m'', ''req_1'')]\<rparr>"
  unfolding authenticated_store_def agentAuthenticateHandler_def
  by (simp add: sample_defs store_defs missing_def verifySecret_def generateAuthCode_def
        AUTH_REQUEST_EXPIRES_IN_def Let_def)

subsection \<open>C10: revocation without a token\<close>

text \<open>
  Claim C10. When the body of \<open>/revoke\<close> has no \<open>token\<close> (missing or empty), the answer
  is HTTP 200 with \<open>{}\<close> and the store is untouched, whatever the client credentials
  are: they are not looked at. The example adds the contrast: the same unknown client
  with a token is refused with 401.
\<close>

theorem revoke_without_token_is_ok:
  "missing_token (tq_token b) \<Longrightarrow> revokeHandler L (Some b) s = (Inr (), s)"
  by (simp add: revokeHandler_def)

theorem revoke_without_token_is_ok_witness:
  "missing_token None
   \<and> revokeHandler sample_lib
       (Some \<lparr>tq_token = None, token_type_hint = None, tq_client_id = Some ''nobody'',
              tq_client_secret = Some ''guess''\<rparr>) sample_store = (Inr (), sample_store)
   \<and> revokeHandler sample_lib
       (Some \<lparr>tq_token = Some (Opaque ''rt_x''), token_type_hint = None,
              tq_client_id = Some ''nobody'', tq_client_secret = Some ''guess''\<rparr>) sample_store
       = (Inl (invalid_client ''Client not found''), sample_store)"
proof -
  have h: "missing_token (tq_token \<lparr>tq_token = None, token_type_hint = None,
      tq_client_id = Some ''nobody'', tq_client_secret = Some ''guess''\<rparr>)"
    by (simp add: missing_token_def)
  have "revokeHandler sample_lib
       (Some \<lparr>tq_token = Some (Opaque ''rt_x''), token_type_hint = None,
              tq_client_id = Some ''nobody'', tq_client_secret = Some ''guess''\<rparr>) sample_store
       = (Inl (invalid_client ''Client not found''), sample_store)"
    by (simp add: revokeHandler_def missing_token_def missing_def getClient_def sample_store_def)
  then show ?thesis
    using revoke_without_token_is_ok [OF h, of sample_lib sample_store]
    by (simp add: missing_token_def)
qed

subsection \<open>C9: PKCE verification\<close>

text \<open>
  Claim C9. \<open>validatePKCE\<close> accepts a verifier against the base64url SHA-256 digest of
  that verifier under \<open>S256\<close>; it rejects every other method; and it accepts exactly
  when the method is \<open>S256\<close> and the recomputed challenge equals the stored one.
\<close>

theorem validatePKCE_is_S256_roundtrip:
  "validatePKCE L verifier (sha256_base64url L verifier) ''S256''
   \<and> (method \<noteq> ''S256'' \<longrightarrow> \<not> validatePKCE L verifier challenge method)
   \<and> (validatePKCE L verifier challenge method
        \<longleftrightarrow> method = ''S256'' \<and> sha256_base64url L verifier = challenge)"
  by (simp add: validatePKCE_def)

theorem validatePKCE_is_S256_roundtrip_witness:
  "validatePKCE sample_lib ''dBjftJeZ4CVP-mB92K27uhbUJU1p1r_wW1gFWFOEjXk''
     ''E9Melhoa2OwvFrEMTJguCHaoeK1t8URWbuGJSstw-cM'' ''S256''
   \<and> ''plain'' \<noteq> ''S256''
   \<and> \<not> validatePKCE sample_lib ''dBjftJeZ4CVP-mB92K27uhbUJU1p1r_wW1gFWFOEjXk''
         ''dBjftJeZ4CVP-mB92K27uhbUJU1p1r_wW1gFWFOEjXk'' ''plain''
   \<and> \<not> validatePKCE sample_lib ''wrong''
         ''E9Melhoa2OwvFrEMTJguCHaoeK1t8URWbuGJSstw-cM'' ''S256''"
proof -
  have d: "sha256_base64url sample_lib ''dBjftJeZ4CVP-mB92K27uhbUJU1p1r_wW1gFWFOEjXk''
      = ''E9Melhoa2OwvFrEMTJguCHaoeK1t8URWbuGJSstw-cM''"
    and w: "sha256_base64url sample_lib ''wrong'' = ''iBCtWB5Z8rw5KLJhcHpxMI9-E56wSCA2bcTVwY2YAiU''"
    by (simp_all add: sample_lib_def)
  show ?thesis
    using validatePKCE_is_S256_roundtrip [of sample_lib
        "''dBjftJeZ4CVP-mB92K27uhbUJU1p1r_wW1gFWFOEjXk''" "''plain''"
        "''dBjftJeZ4CVP-mB92K27uhbUJU1p1r_wW1gFWFOEjXk''"]
      validatePKCE_is_S256_roundtrip [of sample_lib "''wrong''" "''S256''"
        "''E9Melhoa2OwvFrEMTJguCHaoeK1t8URWbuGJSstw-cM''"]
    by (simp add: d w)
qed

subsection \<open>The authorization-code grant\<close>

lemmas config_defs = ACCESS_TOKEN_EXPIRES_IN_def REFRESH_TOKEN_EXPIRES_IN_def
  AUTH_REQUEST_EXPIRES_IN_def

lemmas crypto_defs = verifySecret_def validatePKCE_def generateAuthCode_def
  generateRefreshToken_def generateTokenId_def generateAccessToken_def verifyAccessToken_def

lemma sample_exchange_eq:
  "handleAuthorizationCodeGrant sample_lib 1700000120000 ''t0k3n'' ''r3fr3sh''
     (sample_exchange ''dBjftJeZ4CVP-mB92K27uhbUJU1p1r_wW1gFWFOEjXk'') authenticated_store
   = (Inr sample_response, exchanged_store)"
  unfolding handleAuthorizationCodeGrant_def authenticated_store_eq
  by (simp add: sample_defs store_defs crypto_defs config_defs missing_def Let_def
        sample_access_token_def sample_token_def sample_refresh_entry_def exchanged_store_def
        sample_response_def)

lemma wrong_exchange_eq:
  "handleAuthorizationCodeGrant sample_lib 1700000110000 ''t0k3n'' ''r3fr3sh''
     (sample_exchange ''wrong'') authenticated_store
   = (Inl (invalid_grant ''Invalid PKCE code_verifier''), authenticated_store)"
  unfolding handleAuthorizationCodeGrant_def authenticated_store_eq
  by (simp add: sample_defs store_defs crypto_defs config_defs missing_def Let_def)

text \<open>What a successful exchange has read and written.\<close>

lemma authorization_code_success:
  assumes "handleAuthorizationCodeGrant L now tokenId_rnd refresh_rnd params s = (Inr response, s')"
  shows "\<exists>c rid r agent_id model.
      tb_code params = Some c \<and> c \<noteq> []
    \<and> getAuthCodeRequestId s c = Some rid
    \<and> getAuthRequest s rid = Some r
    \<and> \<not> ar_expires_at r < now
    \<and> ar_agent_id r = Some agent_id \<and> ar_model r = Some model
    \<and> s' = deleteAuthRequest rid (deleteAuthCode c
         (createRefreshToken
            \<lparr>rt_refresh_token = generateRefreshToken refresh_rnd,
             rt_token_id = generateTokenId tokenId_rnd, rt_agent_id = agent_id,
             rt_client_id = the (tb_client_id params),
             rt_expires_at = now + REFRESH_TOKEN_EXPIRES_IN * 1000, rt_revoked = False\<rparr>
         (createToken
            \<lparr>token_id = generateTokenId tokenId_rnd,
             access_token = generateAccessToken now agent_id (the (tb_client_id params)) model
                              (ar_scope r),
             refresh_token = Some (generateRefreshToken refresh_rnd),
             tk_agent_id = agent_id, tk_client_id = the (tb_client_id params),
             tk_model = model, tk_scope = ar_scope r,
             access_token_expires_at = now + ACCESS_TOKEN_EXPIRES_IN * 1000,
             refresh_token_expires_at = Some (now + REFRESH_TOKEN_EXPIRES_IN * 1000),
             tk_created_at = now, tk_revoked = False\<rparr> s)))"
  using assms unfolding handleAuthorizationCodeGrant_def
  by (simp add: Let_def missing_def split: option.splits if_splits)

lemma getAuthCodeRequestId_after_exchange:
  "getAuthCodeRequestId (deleteAuthRequest rid (deleteAuthCode c s)) c = None"
  by (simp add: getAuthCodeRequestId_def deleteAuthRequest_def deleteAuthCode_def delete_conv')

subsection \<open>C7: an authorization code is exchanged once\<close>

text \<open>
  Claim C7. A successful authorization-code exchange deletes the code mapping and the
  auth request the code was bound to; a second exchange that presents the same code,
  with any verifier that is present and the credentials of any registered client,
  answers \<open>invalid_grant\<close> and changes nothing.
\<close>

theorem code_is_single_use:
  assumes first: "handleAuthorizationCodeGrant L now tokenId_rnd refresh_rnd params s
                    = (Inr response, s')"
    and code: "tb_code params = Some c"
    and same: "tb_code params' = Some c"
    and verifier: "\<not> missing (code_verifier params')"
    and client_id: "tb_client_id params' = Some client_id'" "client_id' \<noteq> []"
    and secret: "tb_client_secret params' = Some secret'" "secret' \<noteq> []"
    and client: "getClient s' client_id' = Some client'"
    and valid: "verifySecret L secret' (client_secret_hash client')"
  shows "getAuthCodeRequestId s' c = None
       \<and> (\<forall>rid. getAuthCodeRequestId s c = Some rid \<longrightarrow> getAuthRequest s' rid = None)
       \<and> handleAuthorizationCodeGrant L now' tokenId_rnd' refresh_rnd' params' s'
           = (Inl (invalid_grant ''Invalid or expired authorization code''), s')"
proof -
  from authorization_code_success [OF first] code
  obtain rid s2 where c: "c \<noteq> []" and rid: "getAuthCodeRequestId s c = Some rid"
    and s': "s' = deleteAuthRequest rid (deleteAuthCode c s2)"
    by auto
  have gone: "getAuthCodeRequestId s' c = None"
    unfolding s' by (rule getAuthCodeRequestId_after_exchange)
  have request: "getAuthRequest s' rid = None"
    unfolding s' by (simp add: getAuthRequest_deleteAuthRequest)
  have second: "handleAuthorizationCodeGrant L now' tokenId_rnd' refresh_rnd' params' s'
      = (Inl (invalid_grant ''Invalid or expired authorization code''), s')"
    unfolding handleAuthorizationCodeGrant_def
    using same c verifier client_id secret client valid gone
    by (simp add: missing_def Let_def)
  from gone request second rid show ?thesis by simp
qed

theorem code_is_single_use_witness:
  "handleAuthorizationCodeGrant sample_lib 1700000120000 ''t0k3n'' ''r3fr3sh''
     (sample_exchange ''dBjftJeZ4CVP-mB92K27uhbUJU1p1r_wW1gFWFOEjXk'') authenticated_store
     = (Inr sample_response, exchanged_store)
   \<and> getClient exchanged_store ''client_demo'' = Some sample_client
   \<and> verifySecret sample_lib ''client-secret'' (client_secret_hash sample_client)
   \<and> getAuthCodeRequestId authenticated_store ''code_r4nd0m'' = Some ''req_1''
   \<and> getAuthCodeRequestId exchanged_store ''code_r4nd0m'' = None
   \<and> getAuthRequest exchanged_store ''req_1'' = None
   \<and> handleAuthorizationCodeGrant sample_lib 1700000125000 ''0th3r'' ''fr3sh''
       (sample_exchange ''dBjftJeZ4CVP-mB92K27uhbUJU1p1r_wW1gFWFOEjXk'') exchanged_store
       = (Inl (invalid_grant ''Invalid or expired authorization code''), exchanged_store)"
proof -
  let ?p = "sample_exchange ''dBjftJeZ4CVP-mB92K27uhbUJU1p1r_wW1gFWFOEjXk''"
  have code: "tb_code ?p = Some ''code_r4nd0m''"
    and verifier: "\<not> missing (code_verifier ?p)"
    and client_id: "tb_client_id ?p = Some ''client_demo''" "''client_demo'' \<noteq> []"
    and secret: "tb_client_secret ?p = Some ''client-secret''" "''client-secret'' \<noteq> []"
    by (simp_all add: sample_exchange_def missing_def)
  have client: "getClient exchanged_store ''client_demo'' = Some sample_client"
    by (simp add: getClient_def exchanged_store_def)
  have valid: "verifySecret sample_lib ''client-secret'' (client_secret_hash sample_client)"
    by (simp add: verifySecret_def sample_lib_def sample_client_def)
  have bound: "getAuthCodeRequestId authenticated_store ''code_r4nd0m'' = Some ''req_1''"
    by (simp add: authenticated_store_eq getAuthCodeRequestId_def)
  show ?thesis
    using code_is_single_use [OF sample_exchange_eq code code verifier client_id secret client
        valid, of 1700000125000 "''0th3r''" "''fr3sh''"]
      sample_exchange_eq client valid bound
    by simp
qed

subsection \<open>C2: a wrong PKCE verifier\<close>

text \<open>
  Claim C2 says that an exchange with a wrong verifier consumes the code, so that a later
  exchange with the right verifier fails too. On the sample data the exchange with the
  verifier \<open>wrong\<close> answers \<open>invalid_grant\<close> and leaves the store as it was, and the
  exchange with the right verifier ten seconds later issues the tokens.
\<close>

theorem wrong_verifier_consumes_code_counterexample:
  "handleAuthorizationCodeGrant sample_lib 1700000110000 ''t0k3n'' ''r3fr3sh''
     (sample_exchange ''wrong'') authenticated_store
     = (Inl (invalid_grant ''Invalid PKCE code_verifier''), authenticated_store)
   \<and> handleAuthorizationCodeGrant sample_lib 1700000120000 ''t0k3n'' ''r3fr3sh''
       (sample_exchange ''dBjftJeZ4CVP-mB92K27uhbUJU1p1r_wW1gFWFOEjXk'')
       (snd (handleAuthorizationCodeGrant sample_lib 1700000110000 ''t0k3n'' ''r3fr3sh''
          (sample_exchange ''wrong'') authenticated_store))
     = (Inr sample_response, exchanged_store)"
  by (simp add: wrong_exchange_eq sample_exchange_eq)

text \<open>
  Claim C2, amended. When the verifier fails PKCE verification, the exchange answers
  \<open>invalid_grant\<close> and the store is unchanged: the code is not consumed. A later
  exchange of the same code with a verifier that passes succeeds, as long as the request
  has not expired and carries the agent's identity.
\<close>

theorem wrong_verifier_keeps_code:
  assumes params: "tb_code params = Some c" "c \<noteq> []"
      "code_verifier params = Some verifier" "verifier \<noteq> []"
      "tb_client_id params = Some client_id" "client_id \<noteq> []"
      "tb_client_secret params = Some secret" "secret \<noteq> []"
    and client: "getClient s client_id = Some client"
      "verifySecret L secret (client_secret_hash client)"
    and request: "getAuthCodeRequestId s c = Some rid" "getAuthRequest s rid = Some r"
      "code r = Some c" "ar_client_id r = client_id"
    and wrong: "\<not> validatePKCE L verifier (code_challenge r) (code_challenge_method r)"
  shows "handleAuthorizationCodeGrant L now tokenId_rnd refresh_rnd params s
           = (Inl (invalid_grant ''Invalid PKCE code_verifier''), s)
       \<and> (validatePKCE L verifier' (code_challenge r) (code_challenge_method r)
            \<and> verifier' \<noteq> [] \<and> \<not> ar_expires_at r < now'
            \<and> \<not> missing (ar_agent_id r) \<and> \<not> missing (ar_model r)
          \<longrightarrow> (\<exists>response s'.
                handleAuthorizationCodeGrant L now' tokenId_rnd' refresh_rnd'
                  (params\<lparr>code_verifier := Some verifier'\<rparr>)
                  (snd (handleAuthorizationCodeGrant L now tokenId_rnd refresh_rnd params s))
                = (Inr response, s')))"
proof -
  have first: "handleAuthorizationCodeGrant L now tokenId_rnd refresh_rnd params s
           = (Inl (invalid_grant ''Invalid PKCE code_verifier''), s)"
    unfolding handleAuthorizationCodeGrant_def
    using assms by (simp add: missing_def Let_def)
  have second: "\<exists>response s'.
      handleAuthorizationCodeGrant L now' tokenId_rnd' refresh_rnd'
        (params\<lparr>code_verifier := Some verifier'\<rparr>) s = (Inr response, s')"
    if "validatePKCE L verifier' (code_challenge r) (code_challenge_method r)"
      "verifier' \<noteq> []" "\<not> ar_expires_at r < now'"
      "\<not> missing (ar_agent_id r)" "\<not> missing (ar_model r)"
    unfolding handleAuthorizationCodeGrant_def
    using params client request that by (simp add: missing_def Let_def)
  from first second show ?thesis by simp
qed

theorem wrong_verifier_keeps_code_witness:
  "getAuthCodeRequestId authenticated_store ''code_r4nd0m'' = Some ''req_1''
   \<and> \<not> validatePKCE sample_lib ''wrong''
         ''E9Melhoa2OwvFrEMTJguCHaoeK1t8URWbuGJSstw-cM'' ''S256''
   \<and> validatePKCE sample_lib ''dBjftJeZ4CVP-mB92K27uhbUJU1p1r_wW1gFWFOEjXk''
         ''E9Melhoa2OwvFrEMTJguCHaoeK1t8URWbuGJSstw-cM'' ''S256''
   \<and> handleAuthorizationCodeGrant sample_lib 1700000110000 ''t0k3n'' ''r3fr3sh''
       (sample_exchange ''wrong'') authenticated_store
       = (Inl (invalid_grant ''Invalid PKCE code_verifier''), authenticated_store)
   \<and> (\<exists>response s'.
        handleAuthorizationCodeGrant sample_lib 1700000120000 ''t0k3n'' ''r3fr3sh''
          (sample_exchange ''dBjftJeZ4CVP-mB92K27uhbUJU1p1r_wW1gFWFOEjXk'')
          (snd (handleAuthorizationCodeGrant sample_lib 1700000110000 ''t0k3n'' ''r3fr3sh''
             (sample_exchange ''wrong'') authenticated_store))
        = (Inr response, s'))"
proof -
  let ?p = "sample_exchange ''wrong''"
  let ?r = "sample_request\<lparr>ar_agent_id := Some ''agent_demo'', ar_model := Some ''gpt-4'',
              code := Some ''code_r4nd0m'', status := Authenticated\<rparr>"
  have params: "tb_code ?p = Some ''code_r4nd0m''" "''code_r4nd0m'' \<noteq> []"
      "code_verifier ?p = Some ''wrong''" "''wrong'' \<noteq> []"
      "tb_client_id ?p = Some ''client_demo''" "''client_demo'' \<noteq> []"
      "tb_client_secret ?p = Some ''client-secret''" "''client-secret'' \<noteq> []"
    by (simp_all add: sample_exchange_def)
  have client: "getClient authenticated_store ''client_demo'' = Some sample_client"
      "verifySecret sample_lib ''client-secret'' (client_secret_hash sample_client)"
    by (simp_all add: authenticated_store_eq getClient_def sample_store_def verifySecret_def
          sample_lib_def sample_client_def)
  have request: "getAuthCodeRequestId authenticated_store ''code_r4nd0m'' = Some ''req_1''"
      "getAuthRequest authenticated_store ''req_1'' = Some ?r"
      "code ?r = Some ''code_r4nd0m''" "ar_client_id ?r = ''client_demo''"
    by (simp_all add: authenticated_store_eq getAuthCodeRequestId_def getAuthRequest_def
          sample_request_def)
  have fields: "code_challenge ?r = ''E9Melhoa2OwvFrEMTJguCHaoeK1t8URWbuGJSstw-cM''"
      "code_challenge_method ?r = ''S256''" "ar_expires_at ?r = 1700000600000"
      "ar_agent_id ?r = Some ''agent_demo''" "ar_model ?r = Some ''gpt-4''"
    by (simp_all add: sample_request_def AUTH_REQUEST_EXPIRES_IN_def)
  have wrong: "\<not> validatePKCE sample_lib ''wrong'' (code_challenge ?r) (code_challenge_method ?r)"
    by (simp add: fields validatePKCE_def sample_lib_def)
  have right: "validatePKCE sample_lib ''dBjftJeZ4CVP-mB92K27uhbUJU1p1r_wW1gFWFOEjXk''
      ''E9Melhoa2OwvFrEMTJguCHaoeK1t8URWbuGJSstw-cM'' ''S256''"
    by (simp add: validatePKCE_def sample_lib_def)
  have same: "?p\<lparr>code_verifier := Some ''dBjftJeZ4CVP-mB92K27uhbUJU1p1r_wW1gFWFOEjXk''\<rparr>
      = sample_exchange ''dBjftJeZ4CVP-mB92K27uhbUJU1p1r_wW1gFWFOEjXk''"
    by (simp add: sample_exchange_def)
  show ?thesis
    using wrong_verifier_keeps_code [OF params client request wrong,
        where verifier' = "''dBjftJeZ4CVP-mB92K27uhbUJU1p1r_wW1gFWFOEjXk''"
          and now' = 1700000120000 and now = 1700000110000
          and tokenId_rnd = "''t0k3n''" and refresh_rnd = "''r3fr3sh''"
          and tokenId_rnd' = "''t0k3n''" and refresh_rnd' = "''r3fr3sh''"]
      request(1) wrong right
    by (auto simp: fields same missing_def)
qed

subsection \<open>C8: expiry times of issued tokens\<close>

lemma late_refresh_eq:
  "handleRefreshTokenGrant sample_lib 1702592119000 1702592119000 ''l4t3'' sample_refresh exchanged_store
   = (Inr late_response, late_store)"
  unfolding handleRefreshTokenGrant_def
  by (simp add: sample_defs store_defs crypto_defs config_defs missing_def missing_token_def
        Let_def sample_refresh_def late_access_token_def late_token_def exchanged_store_def
        sample_token_def sample_refresh_entry_def late_response_def late_store_def)

text \<open>
  Claim C8 says that every token created by either grant has
  \<open>refresh_expires_at \<ge> access_expires_at\<close>. The refresh grant one second before the
  refresh token expires stores a token whose access token outlives the refresh token by
  almost an hour.
\<close>

theorem refresh_near_expiry_counterexample:
  "getToken (snd (handleRefreshTokenGrant sample_lib 1702592119000 1702592119000 ''l4t3'' sample_refresh
                    exchanged_store)) ''tok_l4t3'' = Some late_token
   \<and> access_token_expires_at late_token = 1702595719000
   \<and> refresh_token_expires_at late_token = Some 1702592120000
   \<and> \<not> token_expiry_invariant late_token"
  by (simp add: late_refresh_eq getToken_def token_expiry_invariant_def late_token_def
        late_store_def)

lemma refresh_success:
  assumes "handleRefreshTokenGrant L checked_at now tokenId_rnd params s = (Inr response, s')"
  shows "\<exists>rt e original.
      tb_refresh_token params = Some rt
    \<and> getRefreshToken s rt = Some e \<and> \<not> rt_revoked e \<and> \<not> rt_expires_at e < checked_at
    \<and> getToken s (rt_token_id e) = Some original
    \<and> s' = createToken
         \<lparr>token_id = generateTokenId tokenId_rnd,
          access_token = generateAccessToken now (rt_agent_id e) (the (tb_client_id params))
                           (tk_model original) (tk_scope original),
          refresh_token = Some rt, tk_agent_id = rt_agent_id e,
          tk_client_id = the (tb_client_id params),
          tk_model = tk_model original, tk_scope = tk_scope original,
          access_token_expires_at = now + ACCESS_TOKEN_EXPIRES_IN * 1000,
          refresh_token_expires_at = Some (rt_expires_at e),
          tk_created_at = now, tk_revoked = False\<rparr> s"
  using assms unfolding handleRefreshTokenGrant_def
  by (simp add: Let_def missing_token_def split: option.splits if_splits)

lemma getToken_createToken: "getToken (createToken t s) (token_id t) = Some t"
  by (simp add: getToken_def createToken_def update_conv')

lemma getToken_other_fields:
  "getToken (deleteAuthRequest rid s) tid = getToken s tid"
  "getToken (deleteAuthCode c s) tid = getToken s tid"
  "getToken (createRefreshToken e s) tid = getToken s tid"
  by (simp_all add: getToken_def deleteAuthRequest_def deleteAuthCode_def createRefreshToken_def)

text \<open>
  Claim C8, amended. A token created by the authorization-code grant expires one hour
  after its creation and its refresh token after thirty days, so both inequalities hold.
  A token created by the refresh grant expires one hour after its creation, and its
  \<open>refresh_expires_at\<close> is the \<open>expires_at\<close> of the refresh entry, which had not
  passed when the grant tested it: \<open>refresh_expires_at \<ge> access_expires_at\<close> holds
  exactly when, at the creation of the token, the refresh token has at least one hour
  left.
\<close>

theorem issued_token_expiry:
  "(handleAuthorizationCodeGrant L now tokenId_rnd refresh_rnd params s = (Inr response, s')
      \<longrightarrow> (\<exists>t. getToken s' (generateTokenId tokenId_rnd) = Some t
              \<and> access_token t = tr_access_token response
              \<and> tk_created_at t = now
              \<and> access_token_expires_at t = now + 3600000
              \<and> refresh_token_expires_at t = Some (now + 2592000000)
              \<and> token_expiry_invariant t))
   \<and> (handleRefreshTokenGrant L checked_at now tokenId_rnd params s = (Inr response, s')
      \<longrightarrow> (\<exists>t rt e. getToken s' (generateTokenId tokenId_rnd) = Some t
              \<and> access_token t = tr_access_token response
              \<and> tb_refresh_token params = Some rt \<and> getRefreshToken s rt = Some e
              \<and> tk_created_at t = now
              \<and> access_token_expires_at t = now + 3600000
              \<and> refresh_token_expires_at t = Some (rt_expires_at e)
              \<and> checked_at \<le> rt_expires_at e
              \<and> (token_expiry_invariant t \<longleftrightarrow> now + 3600000 \<le> rt_expires_at e)))"
proof (intro conjI impI)
  assume a: "handleAuthorizationCodeGrant L now tokenId_rnd refresh_rnd params s = (Inr response, s')"
  from authorization_code_success [OF a]
  obtain c rid r agent_id model t e where
    s': "s' = deleteAuthRequest rid (deleteAuthCode c (createRefreshToken e (createToken t s)))"
    and t: "t = \<lparr>token_id = generateTokenId tokenId_rnd,
             access_token = generateAccessToken now agent_id (the (tb_client_id params)) model
                              (ar_scope r),
             refresh_token = Some (generateRefreshToken refresh_rnd),
             tk_agent_id = agent_id, tk_client_id = the (tb_client_id params),
             tk_model = model, tk_scope = ar_scope r,
             access_token_expires_at = now + ACCESS_TOKEN_EXPIRES_IN * 1000,
             refresh_token_expires_at = Some (now + REFRESH_TOKEN_EXPIRES_IN * 1000),
             tk_created_at = now, tk_revoked = False\<rparr>"
    and r: "getAuthCodeRequestId s c = Some rid" "getAuthRequest s rid = Some r"
      "ar_agent_id r = Some agent_id" "ar_model r = Some model" "tb_code params = Some c"
    by blast
  have tid: "token_id t = generateTokenId tokenId_rnd" by (simp add: t)
  have get: "getToken s' (generateTokenId tokenId_rnd) = Some t"
    unfolding s' using getToken_createToken [of t s] by (simp add: getToken_other_fields tid)
  have resp: "tr_access_token response = access_token t"
    using a r unfolding handleAuthorizationCodeGrant_def
    by (auto simp: Let_def t split: option.splits if_splits)
  show "\<exists>t. getToken s' (generateTokenId tokenId_rnd) = Some t
              \<and> access_token t = tr_access_token response
              \<and> tk_created_at t = now
              \<and> access_token_expires_at t = now + 3600000
              \<and> refresh_token_expires_at t = Some (now + 2592000000)
              \<and> token_expiry_invariant t"
    using get resp by (simp add: t token_expiry_invariant_def config_defs)
next
  assume a: "handleRefreshTokenGrant L checked_at now tokenId_rnd params s = (Inr response, s')"
  from refresh_success [OF a]
  obtain rt e original t where
    s': "s' = createToken t s"
    and t: "t = \<lparr>token_id = generateTokenId tokenId_rnd,
          access_token = generateAccessToken now (rt_agent_id e) (the (tb_client_id params))
                           (tk_model original) (tk_scope original),
          refresh_token = Some rt, tk_agent_id = rt_agent_id e,
          tk_client_id = the (tb_client_id params),
          tk_model = tk_model original, tk_scope = tk_scope original,
          access_token_expires_at = now + ACCESS_TOKEN_EXPIRES_IN * 1000,
          refresh_token_expires_at = Some (rt_expires_at e),
          tk_created_at = now, tk_revoked = False\<rparr>"
    and e: "tb_refresh_token params = Some rt" "getRefreshToken s rt = Some e"
      "\<not> rt_expires_at e < checked_at" "getToken s (rt_token_id e) = Some original"
    by blast
  have tid: "token_id t = generateTokenId tokenId_rnd" by (simp add: t)
  have get: "getToken s' (generateTokenId tokenId_rnd) = Some t"
    unfolding s' using getToken_createToken [of t s] by (simp add: tid)
  have resp: "tr_access_token response = access_token t"
    using a e unfolding handleRefreshTokenGrant_def
    by (auto simp: Let_def t split: option.splits if_splits)
  show "\<exists>t rt e. getToken s' (generateTokenId tokenId_rnd) = Some t
              \<and> access_token t = tr_access_token response
              \<and> tb_refresh_token params = Some rt \<and> getRefreshToken s rt = Some e
              \<and> tk_created_at t = now
              \<and> access_token_expires_at t = now + 3600000
              \<and> refresh_token_expires_at t = Some (rt_expires_at e)
              \<and> checked_at \<le> rt_expires_at e
              \<and> (token_expiry_invariant t \<longleftrightarrow> now + 3600000 \<le> rt_expires_at e)"
    using get resp e by (auto simp: t token_expiry_invariant_def config_defs)
qed

theorem issued_token_expiry_witness:
  "handleAuthorizationCodeGrant sample_lib 1700000120000 ''t0k3n'' ''r3fr3sh''
     (sample_exchange ''dBjftJeZ4CVP-mB92K27uhbUJU1p1r_wW1gFWFOEjXk'') authenticated_store
     = (Inr sample_response, exchanged_store)
   \<and> (\<exists>t. getToken exchanged_store ''tok_t0k3n'' = Some t
          \<and> access_token_expires_at t = 1700003720000
          \<and> refresh_token_expires_at t = Some 1702592120000
          \<and> token_expiry_invariant t)
   \<and> handleRefreshTokenGrant sample_lib 1702592119000 1702592119000 ''l4t3'' sample_refresh exchanged_store
     = (Inr late_response, late_store)
   \<and> (\<exists>t. getToken late_store ''tok_l4t3'' = Some t
          \<and> access_token_expires_at t = 1702595719000
          \<and> refresh_token_expires_at t = Some 1702592120000
          \<and> \<not> token_expiry_invariant t)"
proof -
  have e: "getRefreshToken exchanged_store (Opaque ''rt_r3fr3sh'') = Some sample_refresh_entry"
    "rt_expires_at sample_refresh_entry = 1702592120000"
    by (simp_all add: getRefreshToken_def exchanged_store_def sample_refresh_entry_def)
  have 1: "\<exists>t. getToken exchanged_store ''tok_t0k3n'' = Some t
          \<and> access_token_expires_at t = 1700003720000
          \<and> refresh_token_expires_at t = Some 1702592120000
          \<and> token_expiry_invariant t"
    using issued_token_expiry [where L = sample_lib and now = 1700000120000
        and tokenId_rnd = "''t0k3n''" and refresh_rnd = "''r3fr3sh''"
        and params = "sample_exchange ''dBjftJeZ4CVP-mB92K27uhbUJU1p1r_wW1gFWFOEjXk''"
        and s = authenticated_store and response = sample_response and s' = exchanged_store]
      sample_exchange_eq
    by (auto simp: generateTokenId_def)
  have 2: "\<exists>t. getToken late_store ''tok_l4t3'' = Some t
          \<and> access_token_expires_at t = 1702595719000
          \<and> refresh_token_expires_at t = Some 1702592120000
          \<and> \<not> token_expiry_invariant t"
    using issued_token_expiry [where L = sample_lib and checked_at = 1702592119000
        and now = 1702592119000
        and tokenId_rnd = "''l4t3''" and params = sample_refresh
        and s = exchanged_store and response = late_response and s' = late_store]
      late_refresh_eq e
    by (auto simp: generateTokenId_def sample_refresh_def)
  from 1 2 sample_exchange_eq late_refresh_eq show ?thesis by simp
qed

subsection \<open>C6: the poll and a back-channel call in flight\<close>

lemma completed_store_eq:
  "completed_store =
     sample_store\<lparr>
       authRequests :=
         [(''req_1'', sample_request\<lparr>ar_agent_id := Some ''agent_demo'', ar_model := Some ''gpt-4'',
              code := Some ''code_r4nd0m'', status := Completed\<rparr>)],
       authorizationCodes := [(''code_r4nd0m'', ''req_1'')]\<rparr>"
  unfolding completed_store_def checkStatusHandler_def authenticated_store_eq
  by (simp add: sample_defs store_defs missing_def config_defs Let_def)

lemma sample_call_eq:
  "agentAuthenticate_before_await sample_lib 1700000060000 (Some sample_login) sample_store
     = Inr sample_call"
  "agentAuthenticate_before_await sample_lib 1700000060010 (Some sample_login) sample_store
     = Inr sample_call"
  unfolding agentAuthenticate_before_await_def
  by (simp_all add: sample_defs store_defs missing_def config_defs Let_def verifySecret_def
        sample_call_def)

lemma sample_resume_eq:
  "agentAuthenticate_after_await ''r4nd0m'' sample_call sample_store
     = (Inr (), authenticated_store)"
  "agentAuthenticate_after_await ''s3c0nd'' sample_call completed_store
     = (Inr (), reauthenticated_store)"
  unfolding agentAuthenticate_after_await_def authenticated_store_eq completed_store_eq
  by (simp_all add: sample_defs store_defs Let_def generateAuthCode_def sample_call_def
        reauthenticated_store_def)

text \<open>
  Claim C6 says that the poll returns an authorization code at most once for a request
  id: after the poll that has returned it and completed the request, no later poll
  returns a code. The back channel tests that the request is pending, awaits
  \<open>bcrypt.compare\<close>, and then writes \<open>authenticated\<close> with a new code without looking
  at the request again. Two calls for the sample request are suspended at that
  \<open>await\<close>. The first runs to its end; the poll returns its code and completes the
  request. Then the second runs to its end and sets the completed request back to
  \<open>authenticated\<close>, and the next poll for the same request id returns a code again.
\<close>

theorem second_authenticate_in_flight_delivers_second_code:
  "run sample_lib
     [Authenticate 1700000060000 (Some sample_login),
      Authenticate 1700000060010 (Some sample_login),
      AuthenticateResume 0 ''r4nd0m''] (sample_store, [])
     = (authenticated_store, [sample_call])
   \<and> checkStatusHandler 1700000061000 (Some ''req_1'') authenticated_store
     = (Inr (StatusAuthenticated ''code_r4nd0m'' ''xyz'' ''https://example.com/callback''),
        completed_store)
   \<and> map_option status (getAuthRequest completed_store ''req_1'') = Some Completed
   \<and> run sample_lib [AuthenticateResume 0 ''s3c0nd''] (completed_store, [sample_call])
     = (reauthenticated_store, [])
   \<and> fst (checkStatusHandler 1700000061500 (Some ''req_1'') reauthenticated_store)
     = Inr (StatusAuthenticated ''code_s3c0nd'' ''xyz'' ''https://example.com/callback'')"
proof -
  have poll1: "checkStatusHandler 1700000061000 (Some ''req_1'') authenticated_store
     = (Inr (StatusAuthenticated ''code_r4nd0m'' ''xyz'' ''https://example.com/callback''),
        completed_store)"
    unfolding completed_store_eq unfolding checkStatusHandler_def authenticated_store_eq
    by (simp add: sample_defs store_defs missing_def config_defs Let_def)
  have st: "map_option status (getAuthRequest completed_store ''req_1'') = Some Completed"
    by (simp add: completed_store_eq getAuthRequest_def)
  have poll2: "fst (checkStatusHandler 1700000061500 (Some ''req_1'') reauthenticated_store)
     = Inr (StatusAuthenticated ''code_s3c0nd'' ''xyz'' ''https://example.com/callback'')"
    unfolding checkStatusHandler_def reauthenticated_store_def
    by (simp add: sample_defs store_defs missing_def config_defs Let_def)
  show ?thesis
    by (simp add: sample_call_eq sample_resume_eq poll1 st poll2)
qed

subsection \<open>C3: polling an expired request\<close>

text \<open>
  Claim C3 says that no poll returns the code of a request whose \<open>expires_at\<close> is past,
  also when the request was authenticated before it expired. The sample request expires
  at \<open>1700000600000\<close> and was authenticated nine minutes earlier; the first poll, one
  hundred seconds after the expiry, returns its code.
\<close>

theorem expired_request_yields_code_counterexample:
  "map_option ar_expires_at (getAuthRequest authenticated_store ''req_1'') = Some 1700000600000
   \<and> fst (checkStatusHandler 1700000700000 (Some ''req_1'') authenticated_store)
       = Inr (StatusAuthenticated ''code_r4nd0m'' ''xyz'' ''https://example.com/callback'')"
  unfolding checkStatusHandler_def authenticated_store_eq
  by (simp add: sample_defs store_defs missing_def config_defs Let_def)

text \<open>
  Claim C3, amended. The poll tests \<open>expires_at\<close> only for a request that is still
  pending; the back channel and the token endpoint test it always.
  \<^item> A request that is not authenticated, with no call to the back channel suspended for
    it, never yields a code once the server is past its \<open>expires_at\<close>: whatever steps
    the server takes after that time (polls, calls to the back channel and their ends,
    exchanges, the sweeper), no poll for it carries a code.
  \<^item> The back channel, called after \<open>expires_at\<close>, answers \<open>request_expired\<close> before its
    \<open>await\<close> and marks the request \<open>expired\<close>; it creates no code.
  \<^item> The poll of a pending request after \<open>expires_at\<close> answers the error
    \<open>request_expired\<close> and marks the request \<open>expired\<close>.
  \<^item> The exception: a request that is authenticated has its code returned by the poll
    whatever the clock says, so also after \<open>expires_at\<close>.
  \<^item> The token endpoint, after \<open>expires_at\<close>, issues no tokens for a code bound to the
    request.
\<close>

theorem expired_request_code:
  assumes "wf_requests s" and "getAuthRequest s rid = Some r"
  shows "(status r \<noteq> Authenticated \<and> none_suspended rid calls
          \<and> (\<forall>op \<in> set ops. draws_request_id op \<noteq> Some rid
                               \<and> served_after (ar_expires_at r) op)
          \<longrightarrow> \<not> carries_code
                (fst (checkStatusHandler now' (Some rid) (fst (run L ops (s, calls))))))
       \<and> (ar_expires_at r < now \<and> ab_request_id b = Some rid \<and> rid \<noteq> []
            \<and> \<not> missing (ab_agent_id b) \<and> \<not> missing (ab_agent_secret b)
            \<and> \<not> missing (ab_model b)
          \<longrightarrow> agentAuthenticate_before_await L now (Some b) s =
                Inl (Inl (HttpError 400 ''request_expired'' ''Auth request has expired''),
                     updateAuthRequest rid
                       (\<lambda>r. r\<lparr>status := Expired, error := Some ''Auth request expired''\<rparr>) s))
       \<and> (ar_expires_at r < now \<and> status r = Pending \<and> rid \<noteq> []
          \<longrightarrow> checkStatusHandler now (Some rid) s =
                (Inr (StatusError ''request_expired''),
                 updateAuthRequest rid
                   (\<lambda>r. r\<lparr>status := Expired, error := Some ''Auth request expired''\<rparr>) s))
       \<and> (status r = Authenticated \<and> code r = Some c \<and> c \<noteq> [] \<and> rid \<noteq> []
          \<longrightarrow> fst (checkStatusHandler now (Some rid) s) =
                Inr (StatusAuthenticated c (state r) (redirect_uri r)))
       \<and> (ar_expires_at r < now \<and> tb_code params = Some c
            \<and> getAuthCodeRequestId s c = Some rid
          \<longrightarrow> (\<forall>response.
                 fst (handleAuthorizationCodeGrant L now tokenId_rnd refresh_rnd params s)
                   \<noteq> Inr response))"
proof (intro conjI impI allI)
  assume a: "status r \<noteq> Authenticated \<and> none_suspended rid calls
          \<and> (\<forall>op \<in> set ops. draws_request_id op \<noteq> Some rid
                               \<and> served_after (ar_expires_at r) op)"
  with assms have "lapsed (ar_expires_at r) rid (s, calls)"
    by (simp add: lapsed_def)
  then have "lapsed (ar_expires_at r) rid (run L ops (s, calls))"
    using a by (intro run_lapsed) simp_all
  then show "\<not> carries_code
                (fst (checkStatusHandler now' (Some rid) (fst (run L ops (s, calls)))))"
    by (rule lapsed_no_code)
next
  assume "ar_expires_at r < now \<and> ab_request_id b = Some rid \<and> rid \<noteq> []
            \<and> \<not> missing (ab_agent_id b) \<and> \<not> missing (ab_agent_secret b)
            \<and> \<not> missing (ab_model b)"
  with assms(2) show "agentAuthenticate_before_await L now (Some b) s =
                Inl (Inl (HttpError 400 ''request_expired'' ''Auth request has expired''),
                     updateAuthRequest rid
                       (\<lambda>r. r\<lparr>status := Expired, error := Some ''Auth request expired''\<rparr>) s)"
    unfolding agentAuthenticate_before_await_def by (simp add: Let_def missing_def)
next
  assume "ar_expires_at r < now \<and> status r = Pending \<and> rid \<noteq> []"
  with assms(2) show "checkStatusHandler now (Some rid) s =
              (Inr (StatusError ''request_expired''),
               updateAuthRequest rid
                 (\<lambda>r. r\<lparr>status := Expired, error := Some ''Auth request expired''\<rparr>) s)"
    unfolding checkStatusHandler_def by (simp add: Let_def missing_def)
next
  assume "status r = Authenticated \<and> code r = Some c \<and> c \<noteq> [] \<and> rid \<noteq> []"
  with assms(2) show "fst (checkStatusHandler now (Some rid) s) =
              Inr (StatusAuthenticated c (state r) (redirect_uri r))"
    unfolding checkStatusHandler_def by (simp add: Let_def missing_def)
next
  fix response
  assume b: "ar_expires_at r < now \<and> tb_code params = Some c
            \<and> getAuthCodeRequestId s c = Some rid"
  show "fst (handleAuthorizationCodeGrant L now tokenId_rnd refresh_rnd params s) \<noteq> Inr response"
  proof
    assume "fst (handleAuthorizationCodeGrant L now tokenId_rnd refresh_rnd params s) = Inr response"
    then have "handleAuthorizationCodeGrant L now tokenId_rnd refresh_rnd params s
        = (Inr response, snd (handleAuthorizationCodeGrant L now tokenId_rnd refresh_rnd params s))"
      by (simp add: prod_eq_iff)
    from authorization_code_success [OF this] b assms(2) show False by auto
  qed
qed

theorem expired_request_code_witness:
  "wf_requests sample_store
   \<and> getAuthRequest sample_store ''req_1'' = Some sample_request
   \<and> ar_expires_at sample_request = 1700000600000
   \<and> status sample_request = Pending
   \<and> none_suspended ''req_1'' []
   \<and> served_after 1700000600000 (Cleanup 1700000650000)
   \<and> served_after 1700000600000 (Authenticate 1700000700000 (Some sample_login))
   \<and> served_after 1700000600000 (CheckStatus 1700000701000 (Some ''req_1''))
   \<and> \<not> carries_code (fst (checkStatusHandler 1700000702000 (Some ''req_1'')
        (fst (run sample_lib
                [Cleanup 1700000650000,
                 Authenticate 1700000700000 (Some sample_login),
                 AuthenticateResume 0 ''r4nd0m'',
                 CheckStatus 1700000701000 (Some ''req_1'')] (sample_store, [])))))
   \<and> agentAuthenticate_before_await sample_lib 1700000700000 (Some sample_login) sample_store
       = Inl (Inl (HttpError 400 ''request_expired'' ''Auth request has expired''),
              expired_store)
   \<and> checkStatusHandler 1700000700000 (Some ''req_1'') sample_store
       = (Inr (StatusError ''request_expired''), expired_store)
   \<and> wf_requests authenticated_store
   \<and> map_option status (getAuthRequest authenticated_store ''req_1'') = Some Authenticated
   \<and> getAuthCodeRequestId authenticated_store ''code_r4nd0m'' = Some ''req_1''
   \<and> fst (checkStatusHandler 1700000700000 (Some ''req_1'') authenticated_store)
       = Inr (StatusAuthenticated ''code_r4nd0m'' ''xyz'' ''https://example.com/callback'')
   \<and> fst (handleAuthorizationCodeGrant sample_lib 1700000700000 ''t0k3n'' ''r3fr3sh''
            (sample_exchange ''dBjftJeZ4CVP-mB92K27uhbUJU1p1r_wW1gFWFOEjXk'')
            authenticated_store) \<noteq> Inr sample_response"
proof -
  let ?r = "sample_request\<lparr>ar_agent_id := Some ''agent_demo'', ar_model := Some ''gpt-4'',
              code := Some ''code_r4nd0m'', status := Authenticated\<rparr>"
  let ?ops = "[Cleanup 1700000650000,
                 Authenticate 1700000700000 (Some sample_login),
                 AuthenticateResume 0 ''r4nd0m'',
                 CheckStatus 1700000701000 (Some ''req_1'')]"
  have w1: "wf_requests sample_store"
    by (simp add: wf_requests_def sample_store_def)
  have g1: "getAuthRequest sample_store ''req_1'' = Some sample_request"
    by (simp add: getAuthRequest_def sample_store_def)
  have e1: "ar_expires_at sample_request = 1700000600000"
    and p1: "status sample_request = Pending"
    by (simp_all add: sample_request_def config_defs)
  have n1: "none_suspended ''req_1'' []"
    by (simp add: none_suspended_def)
  have ops: "\<forall>op \<in> set ?ops. draws_request_id op \<noteq> Some ''req_1''
                               \<and> served_after (ar_expires_at sample_request) op"
    by (simp add: e1)
  have b: "ab_request_id sample_login = Some ''req_1''" "''req_1'' \<noteq> []"
    "\<not> missing (ab_agent_id sample_login)" "\<not> missing (ab_agent_secret sample_login)"
    "\<not> missing (ab_model sample_login)"
    by (simp_all add: sample_login_def missing_def)
  have u: "updateAuthRequest ''req_1''
       (\<lambda>r. r\<lparr>status := Expired, error := Some ''Auth request expired''\<rparr>) sample_store
       = expired_store"
    by (simp add: updateAuthRequest_def sample_store_def expired_store_def)
  have w2: "wf_requests authenticated_store"
    by (simp add: wf_requests_def authenticated_store_eq)
  have g2: "getAuthRequest authenticated_store ''req_1'' = Some ?r"
    by (simp add: getAuthRequest_def authenticated_store_eq)
  have e2: "ar_expires_at ?r = 1700000600000"
    by (simp add: sample_request_def config_defs)
  have f2: "state ?r = ''xyz''" "redirect_uri ?r = ''https://example.com/callback''"
    by (simp_all add: sample_request_def)
  have b2: "getAuthCodeRequestId authenticated_store ''code_r4nd0m'' = Some ''req_1''"
    by (simp add: getAuthCodeRequestId_def authenticated_store_eq)
  have c2: "tb_code (sample_exchange ''dBjftJeZ4CVP-mB92K27uhbUJU1p1r_wW1gFWFOEjXk'')
      = Some ''code_r4nd0m''"
    by (simp add: sample_exchange_def)
  have first: "\<not> carries_code (fst (checkStatusHandler 1700000702000 (Some ''req_1'')
        (fst (run sample_lib ?ops (sample_store, [])))))"
    using expired_request_code [OF w1 g1, where calls = "[]" and ops = ?ops and L = sample_lib
        and now' = 1700000702000] p1 n1 ops
    by simp
  have second: "agentAuthenticate_before_await sample_lib 1700000700000 (Some sample_login)
         sample_store
       = Inl (Inl (HttpError 400 ''request_expired'' ''Auth request has expired''),
              expired_store)"
    and third: "checkStatusHandler 1700000700000 (Some ''req_1'') sample_store
       = (Inr (StatusError ''request_expired''), expired_store)"
    using expired_request_code [OF w1 g1, where now = 1700000700000 and b = sample_login
        and L = sample_lib] b p1
    by (simp_all add: e1 u)
  have fourth: "fst (checkStatusHandler 1700000700000 (Some ''req_1'') authenticated_store)
       = Inr (StatusAuthenticated ''code_r4nd0m'' ''xyz'' ''https://example.com/callback'')"
    and fifth: "fst (handleAuthorizationCodeGrant sample_lib 1700000700000 ''t0k3n'' ''r3fr3sh''
            (sample_exchange ''dBjftJeZ4CVP-mB92K27uhbUJU1p1r_wW1gFWFOEjXk'')
            authenticated_store) \<noteq> Inr sample_response"
    using expired_request_code [OF w2 g2, where now = 1700000700000 and c = "''code_r4nd0m''"
        and L = sample_lib and tokenId_rnd = "''t0k3n''" and refresh_rnd = "''r3fr3sh''"
        and params = "sample_exchange ''dBjftJeZ4CVP-mB92K27uhbUJU1p1r_wW1gFWFOEjXk''"]
      b2 c2
    by (simp_all add: e2 f2)
  from w1 g1 e1 p1 n1 first second third w2 g2 b2 fourth fifth show ?thesis
    by simp
qed

subsection \<open>C4: terminal states\<close>

text \<open>
  Claim C4 says that no operation changes the status of a request that is \<open>completed\<close>,
  \<open>expired\<close> or \<open>error\<close>, and that \<open>authenticate_agent\<close> on a request that is not
  pending answers \<open>invalid_request\<close>. The agent back channel checks the expiry before
  the status: called after \<open>expires_at\<close> on the completed sample request, it answers
  \<open>request_expired\<close> and the request becomes \<open>expired\<close>.
\<close>

theorem terminal_status_changes_counterexample:
  "map_option status (getAuthRequest completed_store ''req_1'') = Some Completed
   \<and> fst (agentAuthenticateHandler sample_lib 1700000700000 ''0th3r'' (Some sample_login)
            completed_store)
       = Inl (HttpError 400 ''request_expired'' ''Auth request has expired'')
   \<and> map_option status
       (getAuthRequest
          (snd (agentAuthenticateHandler sample_lib 1700000700000 ''0th3r'' (Some sample_login)
                  completed_store)) ''req_1'') = Some Expired"
  unfolding agentAuthenticateHandler_def completed_store_eq
  by (simp add: sample_defs store_defs missing_def config_defs Let_def)

text \<open>
  Claim C4, amended. Take a request that is \<open>completed\<close>, \<open>expired\<close> or \<open>error\<close>, with
  no call to the back channel suspended for it. After any sequence of steps of the server
  (in which \<open>/authorize\<close> does not draw its request id again) the request is gone
  (exchanged or swept), or its status is the same or \<open>expired\<close>: no operation that
  starts afterwards returns it to \<open>pending\<close> or \<open>authenticated\<close>.
  \<open>authenticate_agent\<close> on a request that is not pending answers before its \<open>await\<close>:
  \<open>invalid_request\<close> with the current status, changing nothing, when the request has
  not expired; \<open>request_expired\<close>, setting the status to \<open>expired\<close>, after
  \<open>expires_at\<close>. What a call does that was suspended while the request was still
  pending is not part of this statement.
\<close>

theorem terminal_status_kept_or_expired:
  assumes "wf_requests s" and "getAuthRequest s rid = Some r"
  shows "(terminal (status r) \<and> none_suspended rid calls
          \<and> (\<forall>op \<in> set ops. draws_request_id op \<noteq> Some rid) \<longrightarrow>
            (case getAuthRequest (fst (run L ops (s, calls))) rid of
               None \<Rightarrow> True
             | Some r' \<Rightarrow> status r' = status r \<or> status r' = Expired))
       \<and> (status r \<noteq> Pending \<and> ab_request_id b = Some rid \<and> rid \<noteq> []
            \<and> \<not> missing (ab_agent_id b) \<and> \<not> missing (ab_agent_secret b)
            \<and> \<not> missing (ab_model b) \<longrightarrow>
            agentAuthenticate_before_await L now (Some b) s =
              Inl (if ar_expires_at r < now
                   then (Inl (HttpError 400 ''request_expired'' ''Auth request has expired''),
                         updateAuthRequest rid
                           (\<lambda>r. r\<lparr>status := Expired,
                                  error := Some ''Auth request expired''\<rparr>) s)
                   else (Inl (HttpError 400 ''invalid_request''
                                (''Auth request is already '' @ status_name (status r))), s)))"
proof (intro conjI impI)
  assume a: "terminal (status r) \<and> none_suspended rid calls
          \<and> (\<forall>op \<in> set ops. draws_request_id op \<noteq> Some rid)"
  with assms have "settled (status r) rid (s, calls)" by (simp add: settled_def)
  then have "settled (status r) rid (run L ops (s, calls))"
    using a by (intro run_settled) simp_all
  then show "case getAuthRequest (fst (run L ops (s, calls))) rid of
               None \<Rightarrow> True
             | Some r' \<Rightarrow> status r' = status r \<or> status r' = Expired"
    by (simp add: settled_def)
next
  assume "status r \<noteq> Pending \<and> ab_request_id b = Some rid \<and> rid \<noteq> []
            \<and> \<not> missing (ab_agent_id b) \<and> \<not> missing (ab_agent_secret b)
            \<and> \<not> missing (ab_model b)"
  with assms(2) show "agentAuthenticate_before_await L now (Some b) s =
              Inl (if ar_expires_at r < now
                   then (Inl (HttpError 400 ''request_expired'' ''Auth request has expired''),
                         updateAuthRequest rid
                           (\<lambda>r. r\<lparr>status := Expired,
                                  error := Some ''Auth request expired''\<rparr>) s)
                   else (Inl (HttpError 400 ''invalid_request''
                                (''Auth request is already '' @ status_name (status r))), s))"
    unfolding agentAuthenticate_before_await_def by (simp add: Let_def missing_def)
qed

theorem terminal_status_kept_or_expired_witness:
  "wf_requests completed_store
   \<and> map_option status (getAuthRequest completed_store ''req_1'') = Some Completed
   \<and> terminal Completed
   \<and> none_suspended ''req_1'' []
   \<and> draws_request_id (Authenticate 1700000700000 (Some sample_login)) = None
   \<and> draws_request_id (AuthenticateResume 0 ''0th3r'') = None
   \<and> draws_request_id (Authorize 1700000700500 ''2'' sample_authorize) = Some ''req_2''
   \<and> draws_request_id (CheckStatus 1700000701000 (Some ''req_1'')) = None
   \<and> map_option status
       (getAuthRequest
          (fst (run sample_lib
                  [Authenticate 1700000700000 (Some sample_login),
                   AuthenticateResume 0 ''0th3r'',
                   Authorize 1700000700500 ''2'' sample_authorize,
                   CheckStatus 1700000701000 (Some ''req_1'')] (completed_store, [])))
          ''req_1'')
       \<in> {None, Some Completed, Some Expired}
   \<and> agentAuthenticate_before_await sample_lib 1700000100000 (Some sample_login)
       completed_store
       = Inl (Inl (HttpError 400 ''invalid_request'' ''Auth request is already completed''),
              completed_store)
   \<and> map_option fst
       (case agentAuthenticate_before_await sample_lib 1700000700000 (Some sample_login)
               completed_store of Inl answer \<Rightarrow> Some answer | Inr call \<Rightarrow> None)
       = Some (Inl (HttpError 400 ''request_expired'' ''Auth request has expired''))"
proof -
  let ?r = "sample_request\<lparr>ar_agent_id := Some ''agent_demo'', ar_model := Some ''gpt-4'',
              code := Some ''code_r4nd0m'', status := Completed\<rparr>"
  let ?ops = "[Authenticate 1700000700000 (Some sample_login),
               AuthenticateResume 0 ''0th3r'',
               Authorize 1700000700500 ''2'' sample_authorize,
               CheckStatus 1700000701000 (Some ''req_1'')]"
  have ops: "\<forall>op \<in> set ?ops. draws_request_id op \<noteq> Some ''req_1''"
    by (simp add: generateRequestId_def)
  have n: "none_suspended ''req_1'' []"
    by (simp add: none_suspended_def)
  have w: "wf_requests completed_store"
    by (simp add: wf_requests_def completed_store_eq)
  have g: "getAuthRequest completed_store ''req_1'' = Some ?r"
    by (simp add: getAuthRequest_def completed_store_eq)
  have t: "terminal (status ?r)" "status ?r = Completed" "status ?r \<noteq> Pending"
    by (simp_all add: terminal_def)
  have b: "ab_request_id sample_login = Some ''req_1''" "''req_1'' \<noteq> []"
    "\<not> missing (ab_agent_id sample_login)" "\<not> missing (ab_agent_secret sample_login)"
    "\<not> missing (ab_model sample_login)"
    by (simp_all add: sample_login_def missing_def)
  have e: "ar_expires_at ?r = 1700000600000"
    by (simp add: sample_request_def config_defs)
  have run: "map_option status
      (getAuthRequest (fst (run sample_lib ?ops (completed_store, []))) ''req_1'')
      \<in> {None, Some Completed, Some Expired}"
    using terminal_status_kept_or_expired [OF w g, where L = sample_lib and ops = ?ops
        and calls = "[]"] t ops n
    by (auto split: option.splits)
  have early: "agentAuthenticate_before_await sample_lib 1700000100000 (Some sample_login)
       completed_store
       = Inl (Inl (HttpError 400 ''invalid_request'' ''Auth request is already completed''),
              completed_store)"
    using terminal_status_kept_or_expired [OF w g, where L = sample_lib and b = sample_login
        and now = 1700000100000] t b
    by (simp add: e status_name_def)
  have late: "map_option fst
       (case agentAuthenticate_before_await sample_lib 1700000700000 (Some sample_login)
               completed_store of Inl answer \<Rightarrow> Some answer | Inr call \<Rightarrow> None)
       = Some (Inl (HttpError 400 ''request_expired'' ''Auth request has expired''))"
    using terminal_status_kept_or_expired [OF w g, where L = sample_lib and b = sample_login
        and now = 1700000700000] t b
    by (simp add: e)
  from w g t n run early late show ?thesis by (simp add: generateRequestId_def)
qed

subsection \<open>C5: polling after \<open>request_expired\<close>\<close>

text \<open>
  Claim C5 says that after \<open>authenticate_agent\<close> has answered \<open>request_expired\<close> every
  poll answers \<open>{status: "error"}\<close>. The handler tests for the status \<open>error\<close> only:
  on the sample request, expired by the back channel, the poll falls through to
  \<open>{status: "pending"}\<close>.
\<close>

theorem poll_after_request_expired_is_pending:
  "agentAuthenticateHandler sample_lib 1700000700000 ''r4nd0m'' (Some sample_login) sample_store
     = (Inl (HttpError 400 ''request_expired'' ''Auth request has expired''), expired_store)
   \<and> map_option status (getAuthRequest expired_store ''req_1'') = Some Expired
   \<and> checkStatusHandler 1700000701000 (Some ''req_1'') expired_store
     = (Inr StatusPending, expired_store)"
  unfolding agentAuthenticateHandler_def checkStatusHandler_def
  by (simp add: sample_defs store_defs missing_def config_defs Let_def expired_store_def)

subsection \<open>C1: refresh, then revoke the refresh token\<close>

text \<open>
  Claim C1 says that revoking a refresh token makes every access token issued for it
  inactive. The refresh entry keeps the \<open>token_id\<close> of the first token, and the refresh
  grant does not update it: after the revocation (with or without the hint) the refresh
  token and the first access token are inactive, and the access token issued by the
  refresh grant is still active.
\<close>

theorem refresh_then_revoke_keeps_new_access_token_active:
  "handleRefreshTokenGrant sample_lib 1700003000000 1700003000000 ''n3w'' sample_refresh exchanged_store
     = (Inr \<lparr>tr_access_token = new_access_token, token_type = ''Bearer'', expires_in = 3600,
              tr_refresh_token = Opaque ''rt_r3fr3sh'', tr_scope = ''openid profile''\<rparr>,
        refreshed_store)
   \<and> revokeHandler sample_lib
       (Some (sample_query (Opaque ''rt_r3fr3sh'') (Some ''refresh_token''))) refreshed_store
     = (Inr (), revoked_store)
   \<and> revokeHandler sample_lib (Some (sample_query (Opaque ''rt_r3fr3sh'') None)) refreshed_store
     = (Inr (), revoked_store)
   \<and> introspectHandler sample_lib 1700003100000
       (Some (sample_query (Opaque ''rt_r3fr3sh'') (Some ''refresh_token''))) revoked_store
     = Inr Inactive
   \<and> introspectHandler sample_lib 1700003100000
       (Some (sample_query sample_access_token None)) revoked_store
     = Inr Inactive
   \<and> introspectHandler sample_lib 1700003100000
       (Some (sample_query new_access_token None)) revoked_store
     = Inr (ActiveBearer
         \<lparr>sub = ''agent_demo'', jp_client_id = ''client_demo'', jp_model = ''gpt-4'',
          jp_scope = ''openid profile'', iat = 1700003000, exp = 1700006600,
          iss = JWT_ISSUER\<rparr>)"
proof -
  have refresh: "handleRefreshTokenGrant sample_lib 1700003000000 1700003000000 ''n3w'' sample_refresh
      exchanged_store
     = (Inr \<lparr>tr_access_token = new_access_token, token_type = ''Bearer'', expires_in = 3600,
              tr_refresh_token = Opaque ''rt_r3fr3sh'', tr_scope = ''openid profile''\<rparr>,
        refreshed_store)"
    unfolding handleRefreshTokenGrant_def
    by (simp add: sample_defs store_defs crypto_defs config_defs missing_def missing_token_def
          Let_def sample_refresh_def new_access_token_def new_token_def exchanged_store_def
          sample_token_def sample_refresh_entry_def refreshed_store_def)
  have revoke_refresh: "revokeRefreshToken (Opaque ''rt_r3fr3sh'') ''client_demo'' refreshed_store
      = (True, revoked_store)"
    unfolding revokeRefreshToken_def
    by (simp add: store_defs Let_def refreshed_store_def revoked_store_def exchanged_store_def
          sample_refresh_entry_def sample_token_def)
  have revoke_access: "revokeAccessToken (Opaque ''rt_r3fr3sh'') ''client_demo'' refreshed_store
      = (False, refreshed_store)"
    unfolding revokeAccessToken_def
    by (simp add: store_defs Let_def refreshed_store_def exchanged_store_def
          sample_token_def new_token_def sample_access_token_def new_access_token_def)
  have client: "getClient refreshed_store ''client_demo'' = Some sample_client"
    "getClient revoked_store ''client_demo'' = Some sample_client"
    "verifySecret sample_lib ''client-secret'' (client_secret_hash sample_client)"
    by (simp_all add: getClient_def refreshed_store_def revoked_store_def exchanged_store_def
          verifySecret_def sample_lib_def sample_client_def)
  have revoke1: "revokeHandler sample_lib
       (Some (sample_query (Opaque ''rt_r3fr3sh'') (Some ''refresh_token''))) refreshed_store
     = (Inr (), revoked_store)"
    unfolding revokeHandler_def
    by (simp add: sample_query_def missing_def missing_token_def Let_def client revoke_refresh)
  have revoke2: "revokeHandler sample_lib
       (Some (sample_query (Opaque ''rt_r3fr3sh'') None)) refreshed_store
     = (Inr (), revoked_store)"
    unfolding revokeHandler_def
    by (simp add: sample_query_def missing_def missing_token_def Let_def client revoke_refresh
          revoke_access)
  have i1: "introspectRefreshToken 1700003100000 revoked_store (Opaque ''rt_r3fr3sh'')
      ''client_demo'' = Inactive"
    unfolding introspectRefreshToken_def
    by (simp add: store_defs revoked_store_def exchanged_store_def sample_refresh_entry_def)
  have i2: "introspectAccessToken 1700003100000 revoked_store sample_access_token
      ''client_demo'' = Inactive"
    unfolding introspectAccessToken_def
    by (simp add: store_defs crypto_defs revoked_store_def exchanged_store_def
          sample_token_def sample_access_token_def split: option.splits)
  have i3: "introspectAccessToken 1700003100000 revoked_store new_access_token
      ''client_demo'' = ActiveBearer
         \<lparr>sub = ''agent_demo'', jp_client_id = ''client_demo'', jp_model = ''gpt-4'',
          jp_scope = ''openid profile'', iat = 1700003000, exp = 1700006600,
          iss = JWT_ISSUER\<rparr>"
    unfolding introspectAccessToken_def
    by (simp add: store_defs crypto_defs revoked_store_def exchanged_store_def
          sample_token_def sample_access_token_def new_token_def new_access_token_def)
  have present: "\<not> missing_token (Some sample_access_token)"
    "\<not> missing_token (Some new_access_token)" "\<not> missing_token (Some (Opaque ''rt_r3fr3sh''))"
    by (simp_all add: missing_token_def sample_access_token_def new_access_token_def)
  have intro: "introspectHandler sample_lib 1700003100000
       (Some (sample_query (Opaque ''rt_r3fr3sh'') (Some ''refresh_token''))) revoked_store
     = Inr Inactive"
    "introspectHandler sample_lib 1700003100000
       (Some (sample_query sample_access_token None)) revoked_store = Inr Inactive"
    "introspectHandler sample_lib 1700003100000
       (Some (sample_query new_access_token None)) revoked_store
     = Inr (ActiveBearer
         \<lparr>sub = ''agent_demo'', jp_client_id = ''client_demo'', jp_model = ''gpt-4'',
          jp_scope = ''openid profile'', iat = 1700003000, exp = 1700006600,
          iss = JWT_ISSUER\<rparr>)"
    unfolding introspectHandler_def
    by (simp_all add: sample_query_def missing_def present Let_def client i1 i2 i3)
  from refresh revoke1 revoke2 intro show ?thesis by simp
qed

end
